theory Spec2Isabelle
  imports Main
begin

section \<open>OctoFit Tracker: profiles, storage and operations\<close>

text \<open>
  A shallow embedding of \<^verbatim>\<open>models.py\<close>, \<^verbatim>\<open>serializers.py\<close>, \<^verbatim>\<open>storage.py\<close> and
  \<^verbatim>\<open>views.py\<close>. An object is a record; its attributes hold dynamically typed values,
  since the constructors store what they are given. A Python exception is the \<open>Inl\<close>
  branch of a sum; a method that mutates the storage returns the storage after the call,
  also when it raises. The parameters that \<^verbatim>\<open>storage.py\<close> and \<^verbatim>\<open>views.py\<close> annotate
  as \<^verbatim>\<open>str\<close> and test at most for emptiness (user id, name, activity type, notes,
  the role filter of the list view) are strings; every argument that the source tests
  with \<^verbatim>\<open>isinstance\<close> or compares with the recognized values (age, role, duration,
  calories), every keyword argument and everything read from a dictionary is a value
  \<open>pyval\<close>.
\<close>

subsection \<open>Python values and exceptions\<close>

datatype UserRole = STUDENT | GYM_TEACHER

fun role_value :: "UserRole \<Rightarrow> string" where
  "role_value STUDENT = ''student''"
| "role_value GYM_TEACHER = ''gym_teacher''"

text \<open>
  The values that \<^verbatim>\<open>json.load\<close> can return, floats left out, and the members of
  \<^verbatim>\<open>UserRole\<close>. \<^verbatim>\<open>bool\<close> is a subclass of \<^verbatim>\<open>int\<close> in Python, so
  \<^verbatim>\<open>isinstance(True, int)\<close> holds and \<^verbatim>\<open>True\<close> counts as 1. A dictionary is the list
  of its items in insertion order.
\<close>

datatype pyval =
    PNone
  | PBool bool
  | PInt int
  | PStr string
  | PList "pyval list"
  | PDict "(string \<times> pyval) list"
  | PEnum UserRole

text \<open>
  The messages of the \<^verbatim>\<open>ValueError\<close>s the program raises or catches, by kind.
  \<^verbatim>\<open>json.JSONDecodeError\<close> is a subclass of \<^verbatim>\<open>ValueError\<close>.
\<close>

datatype verr =
    AgeInvalid
  | RoleInvalid
  | NotAValidUserRole
  | AlreadyExists
  | InvalidIsoformat
  | JSONDecodeError

datatype exn =
    ValueError verr
  | AttributeError
  | TypeError

definition isinstance_int :: "pyval \<Rightarrow> bool" where
  "isinstance_int v = (case v of PInt _ \<Rightarrow> True | PBool _ \<Rightarrow> True | _ \<Rightarrow> False)"

definition int_of :: "pyval \<Rightarrow> int" where
  "int_of v = (case v of PInt i \<Rightarrow> i | PBool b \<Rightarrow> (if b then 1 else 0) | _ \<Rightarrow> 0)"

text \<open>\<^verbatim>\<open>x.value\<close>: only a member of the enumeration has the attribute.\<close>

definition dot_value :: "pyval \<Rightarrow> exn + string" where
  "dot_value v = (case v of PEnum r \<Rightarrow> Inr (role_value r) | _ \<Rightarrow> Inl AttributeError)"

text \<open>
  \<^verbatim>\<open>sum(...)\<close> over attribute values: it starts from 0 and adds one element after the
  other; adding anything but an integer to an integer raises \<^verbatim>\<open>TypeError\<close>.
\<close>

fun sum_from :: "int \<Rightarrow> pyval list \<Rightarrow> exn + int" where
  "sum_from acc [] = Inr acc"
| "sum_from acc (x # xs) =
     (if isinstance_int x then sum_from (acc + int_of x) xs else Inl TypeError)"

definition py_sum :: "pyval list \<Rightarrow> exn + int" where
  "py_sum xs = sum_from 0 xs"

text \<open>
  A list comprehension whose element expression may raise: the elements are computed in
  order and the first exception ends it.
\<close>

fun list_comp :: "('a \<Rightarrow> exn + 'b) \<Rightarrow> 'a list \<Rightarrow> exn + 'b list" where
  "list_comp f [] = Inr []"
| "list_comp f (x # xs) =
     (case f x of
        Inl e \<Rightarrow> Inl e
      | Inr y \<Rightarrow> (case list_comp f xs of Inl e \<Rightarrow> Inl e | Inr ys \<Rightarrow> Inr (y # ys)))"

text \<open>
  What \<^verbatim>\<open>json.dump\<close> can write: everything but a member of the enumeration, at any
  depth.
\<close>

fun json_ok :: "pyval \<Rightarrow> bool" where
  "json_ok (PEnum r) = False"
| "json_ok (PList xs) = (\<forall>x \<in> set xs. json_ok x)"
| "json_ok (PDict d) = (\<forall>kv \<in> set d. json_ok (snd kv))"
| "json_ok v = True"

subsection \<open>Dictionaries\<close>

text \<open>
  \<^verbatim>\<open>d.get(k)\<close>, \<^verbatim>\<open>d.get(k, default)\<close>, \<^verbatim>\<open>k in d\<close>, \<^verbatim>\<open>d[k] = v\<close> (an existing key
  keeps its position, a new key goes last) and \<^verbatim>\<open>del d[k]\<close>.
\<close>

definition py_get_default :: "(string \<times> pyval) list \<Rightarrow> string \<Rightarrow> pyval \<Rightarrow> pyval" where
  "py_get_default d k dflt = (case map_of d k of None \<Rightarrow> dflt | Some v \<Rightarrow> v)"

definition py_get :: "(string \<times> pyval) list \<Rightarrow> string \<Rightarrow> pyval" where
  "py_get d k = py_get_default d k PNone"

definition py_in :: "'k \<Rightarrow> ('k \<times> 'v) list \<Rightarrow> bool" where
  "py_in k d = (map_of d k \<noteq> None)"

fun dict_set :: "'k \<Rightarrow> 'v \<Rightarrow> ('k \<times> 'v) list \<Rightarrow> ('k \<times> 'v) list" where
  "dict_set k v [] = [(k, v)]"
| "dict_set k v ((k', v') # d) = (if k' = k then (k, v) # d else (k', v') # dict_set k v d)"

definition dict_del :: "'k \<Rightarrow> ('k \<times> 'v) list \<Rightarrow> ('k \<times> 'v) list" where
  "dict_del k d = filter (\<lambda>kv. fst kv \<noteq> k) d"

subsection \<open>Points in time\<close>

text \<open>
  Modelled from the Python standard library: \<^verbatim>\<open>datetime\<close> is not code of this
  repository. A naive \<^verbatim>\<open>datetime\<close> is represented by the text that \<^verbatim>\<open>isoformat()\<close>
  prints for it, \<^verbatim>\<open>YYYY-MM-DDTHH:MM:SS\<close> with \<^verbatim>\<open>.ffffff\<close> appended when the microsecond
  is not zero. \<^verbatim>\<open>fromisoformat\<close> raises \<^verbatim>\<open>TypeError\<close> on a non-string and
  \<^verbatim>\<open>ValueError\<close> on a string that is not of that shape or whose month, day, hour,
  minute or second is out of range (the length of the month is not checked; the other
  spellings Python also accepts are not modelled). The clock reading
  \<^verbatim>\<open>datetime.now()\<close> is a parameter \<open>now\<close> of every operation that reads it.
\<close>

datatype datetime = DateTime string

definition isoformat :: "datetime \<Rightarrow> string" where
  "isoformat t = (case t of DateTime s \<Rightarrow> s)"

definition is_digit :: "char \<Rightarrow> bool" where
  "is_digit c = (c \<in> set ''0123456789'')"

fun matches :: "string \<Rightarrow> string \<Rightarrow> bool" where
  "matches [] [] = True"
| "matches (p # ps) (c # cs) = ((if p = CHR ''9'' then is_digit c else c = p) \<and> matches ps cs)"
| "matches _ _ = False"

definition digit_val :: "char \<Rightarrow> nat" where
  "digit_val c = of_char c - of_char (CHR ''0'')"

definition num2 :: "string \<Rightarrow> nat \<Rightarrow> nat" where
  "num2 s i = digit_val (s ! i) * 10 + digit_val (s ! (i + 1))"

definition iso_ok :: "string \<Rightarrow> bool" where
  "iso_ok s =
     ((matches ''9999-99-99T99:99:99'' s \<or> matches ''9999-99-99T99:99:99.999999'' s)
      \<and> take 4 s \<noteq> ''0000''
      \<and> 1 \<le> num2 s 5 \<and> num2 s 5 \<le> 12
      \<and> 1 \<le> num2 s 8 \<and> num2 s 8 \<le> 31
      \<and> num2 s 11 \<le> 23 \<and> num2 s 14 \<le> 59 \<and> num2 s 17 \<le> 59)"

definition fromisoformat :: "pyval \<Rightarrow> exn + datetime" where
  "fromisoformat v =
     (case v of
        PStr s \<Rightarrow> (if iso_ok s then Inr (DateTime s) else Inl (ValueError InvalidIsoformat))
      | _ \<Rightarrow> Inl TypeError)"

definition valid_datetime :: "datetime \<Rightarrow> bool" where
  "valid_datetime t = iso_ok (isoformat t)"

subsection \<open>models.py\<close>

text \<open>\<^verbatim>\<open>UserRole(text)\<close>: the member with that value, or \<^verbatim>\<open>ValueError\<close>.\<close>

definition UserRole_call :: "string \<Rightarrow> exn + UserRole" where
  "UserRole_call s =
     (if s = ''student'' then Inr STUDENT
      else if s = ''gym_teacher'' then Inr GYM_TEACHER
      else Inl (ValueError NotAValidUserRole))"

record ActivityEntry =
  activity_type :: pyval
  duration_minutes :: pyval
  calories_burned :: pyval
  timestamp :: datetime
  "notes" :: pyval

record UserProfile =
  user_id :: pyval
  name :: pyval
  age :: pyval
  role :: pyval
  activity_history :: "ActivityEntry list"
  created_at :: datetime

definition ActivityEntry_init :: "datetime \<Rightarrow> pyval \<Rightarrow> pyval \<Rightarrow> pyval \<Rightarrow> pyval \<Rightarrow> ActivityEntry" where
  "ActivityEntry_init now ty dur cal nt =
     \<lparr>activity_type = ty, duration_minutes = dur, calories_burned = cal,
      timestamp = now, notes = nt\<rparr>"

definition ActivityEntry_to_dict :: "ActivityEntry \<Rightarrow> pyval" where
  "ActivityEntry_to_dict a =
     PDict [(''activity_type'', activity_type a),
            (''duration_minutes'', duration_minutes a),
            (''calories_burned'', calories_burned a),
            (''timestamp'', PStr (isoformat (timestamp a))),
            (''notes'', notes a)]"

text \<open>
  \<^verbatim>\<open>ActivityEntry.from_dict\<close>. \<^verbatim>\<open>data.get\<close> on a value that is not a dictionary
  raises \<^verbatim>\<open>AttributeError\<close>. The four fields are read with \<^verbatim>\<open>get\<close> (\<^verbatim>\<open>None\<close> when
  missing, \<^verbatim>\<open>""\<close> for the notes) and stored as they are; the timestamp is replaced by
  the decoded one when the key is there.
\<close>

definition ActivityEntry_from_dict :: "datetime \<Rightarrow> pyval \<Rightarrow> exn + ActivityEntry" where
  "ActivityEntry_from_dict now dat =
     (case dat of
        PDict d \<Rightarrow>
          (let entry = ActivityEntry_init now
                 (py_get d ''activity_type'') (py_get d ''duration_minutes'')
                 (py_get d ''calories_burned'') (py_get_default d ''notes'' (PStr []))
           in if py_in ''timestamp'' d then
                (case fromisoformat (py_get d ''timestamp'') of
                   Inl e \<Rightarrow> Inl e
                 | Inr t \<Rightarrow> Inr (entry\<lparr>timestamp := t\<rparr>))
              else Inr entry)
      | _ \<Rightarrow> Inl AttributeError)"

text \<open>
  \<^verbatim>\<open>UserProfile.__init__\<close>. The age must be an \<^verbatim>\<open>int\<close> between 0 and 150. A role that
  is a \<^verbatim>\<open>str\<close> is converted to the member with that value, and the \<^verbatim>\<open>ValueError\<close> of
  the conversion is raised anew; a role that is not a \<^verbatim>\<open>str\<close> is stored as it is.
\<close>

definition UserProfile_init :: "datetime \<Rightarrow> pyval \<Rightarrow> pyval \<Rightarrow> pyval \<Rightarrow> pyval \<Rightarrow> exn + UserProfile" where
  "UserProfile_init now uid nm ag rl =
     (if \<not> isinstance_int ag \<or> int_of ag < 0 \<or> int_of ag > 150
      then Inl (ValueError AgeInvalid)
      else
        (case (case rl of
                 PStr s \<Rightarrow>
                   (case UserRole_call s of
                      Inl (ValueError v) \<Rightarrow> Inl (ValueError RoleInvalid)
                    | Inl e \<Rightarrow> Inl e
                    | Inr r \<Rightarrow> Inr (PEnum r))
               | _ \<Rightarrow> Inr rl) of
           Inl e \<Rightarrow> Inl e
         | Inr r \<Rightarrow>
             Inr \<lparr>user_id = uid, name = nm, age = ag, role = r,
                  activity_history = [], created_at = now\<rparr>))"

definition UserProfile_add_activity ::
  "datetime \<Rightarrow> UserProfile \<Rightarrow> pyval \<Rightarrow> pyval \<Rightarrow> pyval \<Rightarrow> pyval \<Rightarrow> ActivityEntry \<times> UserProfile" where
  "UserProfile_add_activity now p ty dur cal nt =
     (let activity = ActivityEntry_init now ty dur cal nt
      in (activity, p\<lparr>activity_history := activity_history p @ [activity]\<rparr>))"

definition get_total_activities :: "UserProfile \<Rightarrow> int" where
  "get_total_activities p = int (length (activity_history p))"

definition get_total_activity_time :: "UserProfile \<Rightarrow> exn + int" where
  "get_total_activity_time p = py_sum (map duration_minutes (activity_history p))"

definition get_total_calories_burned :: "UserProfile \<Rightarrow> exn + int" where
  "get_total_calories_burned p = py_sum (map calories_burned (activity_history p))"

text \<open>
  \<^verbatim>\<open>UserProfile.to_dict\<close>: the entries of the dictionary are computed in order, so
  \<^verbatim>\<open>self.role.value\<close> raises before the sums do.
\<close>

definition UserProfile_to_dict :: "UserProfile \<Rightarrow> exn + pyval" where
  "UserProfile_to_dict p =
     (case dot_value (role p) of Inl e \<Rightarrow> Inl e | Inr rv \<Rightarrow>
     (case get_total_activity_time p of Inl e \<Rightarrow> Inl e | Inr total_time \<Rightarrow>
     (case get_total_calories_burned p of Inl e \<Rightarrow> Inl e | Inr total_calories \<Rightarrow>
        Inr (PDict
          [(''user_id'', user_id p),
           (''name'', name p),
           (''age'', age p),
           (''role'', PStr rv),
           (''created_at'', PStr (isoformat (created_at p))),
           (''activity_history'', PList (map ActivityEntry_to_dict (activity_history p))),
           (''stats'', PDict [(''total_activities'', PInt (get_total_activities p)),
                              (''total_activity_time_minutes'', PInt total_time),
                              (''total_calories_burned'', PInt total_calories)])]))))"

text \<open>
  The loop of \<^verbatim>\<open>UserProfile.from_dict\<close> over \<^verbatim>\<open>data["activity_history"]\<close>: each
  element is decoded and appended; the first exception ends it.
\<close>

fun restore_activities :: "datetime \<Rightarrow> pyval list \<Rightarrow> UserProfile \<Rightarrow> exn + UserProfile" where
  "restore_activities now [] p = Inr p"
| "restore_activities now (activity_data # rest) p =
     (case ActivityEntry_from_dict now activity_data of
        Inl e \<Rightarrow> Inl e
      | Inr activity \<Rightarrow>
          restore_activities now rest (p\<lparr>activity_history := activity_history p @ [activity]\<rparr>))"

text \<open>
  What \<^verbatim>\<open>for activity_data in v\<close> iterates over: the elements of a list, the keys of
  a dictionary, the characters of a string; nothing else is iterable.
\<close>

definition py_iter :: "pyval \<Rightarrow> exn + pyval list" where
  "py_iter v =
     (case v of
        PList xs \<Rightarrow> Inr xs
      | PDict d \<Rightarrow> Inr (map (\<lambda>kv. PStr (fst kv)) d)
      | PStr s \<Rightarrow> Inr (map (\<lambda>c. PStr [c]) s)
      | _ \<Rightarrow> Inl TypeError)"

text \<open>
  \<^verbatim>\<open>UserProfile.from_dict\<close>: what \<^verbatim>\<open>data.get\<close> returns goes to the constructor as
  it is (\<^verbatim>\<open>None\<close> for a missing key).
\<close>

definition UserProfile_from_dict :: "datetime \<Rightarrow> pyval \<Rightarrow> exn + UserProfile" where
  "UserProfile_from_dict now dat =
     (case dat of
        PDict d \<Rightarrow>
          (case UserProfile_init now (py_get d ''user_id'') (py_get d ''name'')
                  (py_get d ''age'') (py_get d ''role'') of Inl e \<Rightarrow> Inl e | Inr profile \<Rightarrow>
          (case (if py_in ''created_at'' d then
                   (case fromisoformat (py_get d ''created_at'') of
                      Inl e \<Rightarrow> Inl e
                    | Inr t \<Rightarrow> Inr (profile\<lparr>created_at := t\<rparr>))
                 else Inr profile) of Inl e \<Rightarrow> Inl e | Inr profile' \<Rightarrow>
             (if py_in ''activity_history'' d then
                (case py_iter (py_get d ''activity_history'') of
                   Inl e \<Rightarrow> Inl e
                 | Inr items \<Rightarrow> restore_activities now items profile')
              else Inr profile')))
      | _ \<Rightarrow> Inl AttributeError)"

subsection \<open>serializers.py\<close>

definition ActivitySerializer_serialize :: "ActivityEntry \<Rightarrow> pyval" where
  "ActivitySerializer_serialize activity =
     PDict [(''activity_type'', activity_type activity),
            (''duration_minutes'', duration_minutes activity),
            (''calories_burned'', calories_burned activity),
            (''timestamp'', PStr (isoformat (timestamp activity))),
            (''notes'', notes activity)]"

definition ActivitySerializer_serialize_many :: "ActivityEntry list \<Rightarrow> pyval" where
  "ActivitySerializer_serialize_many activities =
     PList (map ActivitySerializer_serialize activities)"

definition UserProfileSerializer_serialize :: "UserProfile \<Rightarrow> exn + pyval" where
  "UserProfileSerializer_serialize profile =
     (case dot_value (role profile) of Inl e \<Rightarrow> Inl e | Inr rv \<Rightarrow>
     (case get_total_activity_time profile of Inl e \<Rightarrow> Inl e | Inr total_time \<Rightarrow>
     (case get_total_calories_burned profile of Inl e \<Rightarrow> Inl e | Inr total_calories \<Rightarrow>
        Inr (PDict
          [(''user_id'', user_id profile),
           (''name'', name profile),
           (''age'', age profile),
           (''role'', PStr rv),
           (''created_at'', PStr (isoformat (created_at profile))),
           (''activity_history'', ActivitySerializer_serialize_many (activity_history profile)),
           (''stats'', PDict [(''total_activities'', PInt (get_total_activities profile)),
                              (''total_activity_time_minutes'', PInt total_time),
                              (''total_calories_burned'', PInt total_calories)])]))))"

definition list_view_entry :: "UserProfile \<Rightarrow> exn + pyval" where
  "list_view_entry profile =
     (case dot_value (role profile) of Inl e \<Rightarrow> Inl e | Inr rv \<Rightarrow>
     (case get_total_calories_burned profile of Inl e \<Rightarrow> Inl e | Inr total_calories \<Rightarrow>
        Inr (PDict
          [(''user_id'', user_id profile),
           (''name'', name profile),
           (''age'', age profile),
           (''role'', PStr rv),
           (''total_activities'', PInt (get_total_activities profile)),
           (''total_calories_burned'', PInt total_calories)])))"

definition serialize_list_view :: "UserProfile list \<Rightarrow> exn + pyval" where
  "serialize_list_view profiles =
     (case list_comp list_view_entry profiles of Inl e \<Rightarrow> Inl e | Inr entries \<Rightarrow> Inr (PList entries))"

subsection \<open>storage.py\<close>

text \<open>
  The file at \<^verbatim>\<open>self.storage_file\<close>, as \<^verbatim>\<open>load_all\<close> sees it: not there
  (\<^verbatim>\<open>os.path.exists\<close> is false), there with a content on which \<^verbatim>\<open>json.load\<close> raises
  \<^verbatim>\<open>JSONDecodeError\<close>, or there with the value \<^verbatim>\<open>json.load\<close> returns.
  \<^verbatim>\<open>json.dump\<close> of a dictionary of strings, integers, booleans, \<^verbatim>\<open>None\<close>, lists and
  dictionaries with string keys writes a file from which \<^verbatim>\<open>json.load\<close> returns the
  same value; failures of the file system are not modelled.
\<close>

datatype file_state = Absent | Unparseable | Content pyval

text \<open>
  \<open>profiles\<close> is the dictionary \<^verbatim>\<open>self.profiles\<close>, its items in insertion order;
  \<open>storage_file\<close> is the state of the file at the path \<^verbatim>\<open>self.storage_file\<close>.
\<close>

record ProfileStorage =
  profiles :: "(string \<times> UserProfile) list"
  storage_file :: file_state

text \<open>The loop of \<^verbatim>\<open>load_all\<close> over \<^verbatim>\<open>data.items()\<close>.\<close>

fun load_items ::
  "datetime \<Rightarrow> (string \<times> pyval) list \<Rightarrow> (string \<times> UserProfile) list \<Rightarrow> exn + (string \<times> UserProfile) list" where
  "load_items now [] profs = Inr profs"
| "load_items now ((uid, profile_data) # rest) profs =
     (case UserProfile_from_dict now profile_data of
        Inl e \<Rightarrow> Inl e
      | Inr profile \<Rightarrow> load_items now rest (dict_set uid profile profs))"

text \<open>
  \<^verbatim>\<open>load_all\<close> returns the storage and the exceptions it printed; an exception that
  \<^verbatim>\<open>except (json.JSONDecodeError, ValueError)\<close> does not catch leaves the method.
  \<^verbatim>\<open>data.items()\<close> raises \<^verbatim>\<open>AttributeError\<close> when the file holds a value that is
  not an object.
\<close>

definition load_all :: "datetime \<Rightarrow> ProfileStorage \<Rightarrow> exn + (ProfileStorage \<times> exn list)" where
  "load_all now st =
     (case storage_file st of
        Absent \<Rightarrow> Inr (st\<lparr>profiles := []\<rparr>, [])
      | Unparseable \<Rightarrow> Inr (st\<lparr>profiles := []\<rparr>, [ValueError JSONDecodeError])
      | Content dat \<Rightarrow>
          (case dat of
             PDict items \<Rightarrow>
               (case load_items now items (profiles st) of
                  Inr profs \<Rightarrow> Inr (st\<lparr>profiles := profs\<rparr>, [])
                | Inl (ValueError v) \<Rightarrow> Inr (st\<lparr>profiles := []\<rparr>, [ValueError v])
                | Inl e \<Rightarrow> Inl e)
           | _ \<Rightarrow> Inl AttributeError))"

definition ProfileStorage_init :: "datetime \<Rightarrow> file_state \<Rightarrow> exn + (ProfileStorage \<times> exn list)" where
  "ProfileStorage_init now f = load_all now \<lparr>profiles = [], storage_file = f\<rparr>"

text \<open>
  \<^verbatim>\<open>save_all\<close> returns the exception it raised, if any, and the storage. The dictionary
  comprehension calls \<^verbatim>\<open>to_dict\<close> on every profile before the file is opened, so an
  exception there leaves the file as it was. \<^verbatim>\<open>open(..., 'w')\<close> then empties the
  file, and \<^verbatim>\<open>json.dump\<close> writes piece by piece: when it meets a value it cannot
  write it raises \<^verbatim>\<open>TypeError\<close> and leaves a file that is not JSON.
\<close>

definition save_all :: "ProfileStorage \<Rightarrow> exn option \<times> ProfileStorage" where
  "save_all st =
     (case list_comp (\<lambda>item. case UserProfile_to_dict (snd item) of
                               Inl e \<Rightarrow> Inl e
                             | Inr d \<Rightarrow> Inr (fst item, d)) (profiles st) of
        Inl e \<Rightarrow> (Some e, st)
      | Inr items \<Rightarrow>
          (if json_ok (PDict items) then (None, st\<lparr>storage_file := Content (PDict items)\<rparr>)
           else (Some TypeError, st\<lparr>storage_file := Unparseable\<rparr>)))"

definition ProfileStorage_create_profile ::
  "datetime \<Rightarrow> ProfileStorage \<Rightarrow> string \<Rightarrow> string \<Rightarrow> pyval \<Rightarrow> pyval
     \<Rightarrow> (exn + UserProfile) \<times> ProfileStorage" where
  "ProfileStorage_create_profile now st uid nm ag rl =
     (if py_in uid (profiles st) then (Inl (ValueError AlreadyExists), st)
      else
        (case UserProfile_init now (PStr uid) (PStr nm) ag rl of
           Inl e \<Rightarrow> (Inl e, st)
         | Inr profile \<Rightarrow>
             (case save_all (st\<lparr>profiles := dict_set uid profile (profiles st)\<rparr>) of
                (Some e, st') \<Rightarrow> (Inl e, st')
              | (None, st') \<Rightarrow> (Inr profile, st'))))"

definition ProfileStorage_get_profile :: "ProfileStorage \<Rightarrow> string \<Rightarrow> UserProfile option" where
  "ProfileStorage_get_profile st uid = map_of (profiles st) uid"

text \<open>
  \<^verbatim>\<open>**kwargs\<close> of \<^verbatim>\<open>update_profile\<close>: each of the three keys it reads is there or not,
  with any value.
\<close>

record kwargs =
  kw_name :: "pyval option"
  kw_age :: "pyval option"
  kw_role :: "pyval option"

text \<open>
  \<^verbatim>\<open>update_profile\<close> assigns to the attributes of the stored object one after the
  other, so the storage holds every assignment made before a \<^verbatim>\<open>raise\<close>. A role that
  is a \<^verbatim>\<open>str\<close> is converted (\<^verbatim>\<open>ValueError\<close> when it is not the value of a member);
  any other role is assigned as it is. \<^verbatim>\<open>save_all\<close> is reached only when nothing was
  raised before, and may raise itself.
\<close>

definition ProfileStorage_update_profile ::
  "ProfileStorage \<Rightarrow> string \<Rightarrow> kwargs \<Rightarrow> (exn + UserProfile option) \<times> ProfileStorage" where
  "ProfileStorage_update_profile st uid kw =
     (case ProfileStorage_get_profile st uid of
        None \<Rightarrow> (Inr None, st)
      | Some profile \<Rightarrow>
          (let stored = (\<lambda>p. st\<lparr>profiles := dict_set uid p (profiles st)\<rparr>);
               profile1 = (case kw_name kw of
                             Some n \<Rightarrow> profile\<lparr>name := n\<rparr>
                           | None \<Rightarrow> profile)
           in (case (case kw_age kw of
                       Some a \<Rightarrow>
                         (if \<not> isinstance_int a \<or> int_of a < 0 \<or> int_of a > 150
                          then Inl (ValueError AgeInvalid)
                          else Inr (profile1\<lparr>age := a\<rparr>))
                     | None \<Rightarrow> Inr profile1) of
                 Inl e \<Rightarrow> (Inl e, stored profile1)
               | Inr profile2 \<Rightarrow>
                   (case (case kw_role kw of
                            Some (PStr s) \<Rightarrow>
                              (case UserRole_call s of
                                 Inl e \<Rightarrow> Inl e
                               | Inr r \<Rightarrow> Inr (profile2\<lparr>role := PEnum r\<rparr>))
                          | Some v \<Rightarrow> Inr (profile2\<lparr>role := v\<rparr>)
                          | None \<Rightarrow> Inr profile2) of
                      Inl e \<Rightarrow> (Inl e, stored profile2)
                    | Inr profile3 \<Rightarrow>
                        (case save_all (stored profile3) of
                           (Some e, st') \<Rightarrow> (Inl e, st')
                         | (None, st') \<Rightarrow> (Inr (Some profile3), st'))))))"

definition ProfileStorage_delete_profile ::
  "ProfileStorage \<Rightarrow> string \<Rightarrow> (exn + bool) \<times> ProfileStorage" where
  "ProfileStorage_delete_profile st uid =
     (if py_in uid (profiles st)
      then (case save_all (st\<lparr>profiles := dict_del uid (profiles st)\<rparr>) of
              (Some e, st') \<Rightarrow> (Inl e, st')
            | (None, st') \<Rightarrow> (Inr True, st'))
      else (Inr False, st))"

definition get_all_profiles :: "ProfileStorage \<Rightarrow> UserProfile list" where
  "get_all_profiles st = map snd (profiles st)"

text \<open>
  \<^verbatim>\<open>[p for p in self.profiles.values() if p.role.value == role]\<close>: the condition
  raises on a profile whose role has no \<^verbatim>\<open>value\<close>.
\<close>

fun filter_by_role :: "string \<Rightarrow> UserProfile list \<Rightarrow> exn + UserProfile list" where
  "filter_by_role r [] = Inr []"
| "filter_by_role r (p # ps) =
     (case dot_value (role p) of
        Inl e \<Rightarrow> Inl e
      | Inr rv \<Rightarrow>
          (case filter_by_role r ps of
             Inl e \<Rightarrow> Inl e
           | Inr qs \<Rightarrow> Inr (if rv = r then p # qs else qs)))"

definition get_profiles_by_role :: "ProfileStorage \<Rightarrow> string \<Rightarrow> exn + UserProfile list" where
  "get_profiles_by_role st r = filter_by_role r (map snd (profiles st))"

definition add_activity_to_profile ::
  "datetime \<Rightarrow> ProfileStorage \<Rightarrow> string \<Rightarrow> pyval \<Rightarrow> pyval \<Rightarrow> pyval \<Rightarrow> pyval
     \<Rightarrow> (exn + bool) \<times> ProfileStorage" where
  "add_activity_to_profile now st uid ty dur cal nt =
     (case ProfileStorage_get_profile st uid of
        None \<Rightarrow> (Inr False, st)
      | Some profile \<Rightarrow>
          (let profile' = snd (UserProfile_add_activity now profile ty dur cal nt)
           in (case save_all (st\<lparr>profiles := dict_set uid profile' (profiles st)\<rparr>) of
                 (Some e, st') \<Rightarrow> (Inl e, st')
               | (None, st') \<Rightarrow> (Inr True, st'))))"

text \<open>\<^verbatim>\<open>InMemoryProfileStorage\<close>: the dictionary alone.\<close>

definition InMemoryProfileStorage_create_profile ::
  "datetime \<Rightarrow> (string \<times> UserProfile) list \<Rightarrow> string \<Rightarrow> string \<Rightarrow> pyval \<Rightarrow> pyval
     \<Rightarrow> (exn + UserProfile) \<times> (string \<times> UserProfile) list" where
  "InMemoryProfileStorage_create_profile now profs uid nm ag rl =
     (if py_in uid profs then (Inl (ValueError AlreadyExists), profs)
      else
        (case UserProfile_init now (PStr uid) (PStr nm) ag rl of
           Inl e \<Rightarrow> (Inl e, profs)
         | Inr profile \<Rightarrow> (Inr profile, dict_set uid profile profs)))"

subsection \<open>views.py\<close>

text \<open>
  The response dictionary, without its message text: \<open>data\<close> is \<open>None\<close> when the
  dictionary has no \<^verbatim>\<open>"data"\<close> key. Every view takes the module's global \<^verbatim>\<open>storage\<close>
  and returns it after the call. \<open>except_400_500\<close> is the pair of handlers
  \<^verbatim>\<open>except ValueError\<close> (400) and \<^verbatim>\<open>except Exception\<close> (500); the views that have
  only the second answer 500 to every exception.
\<close>

record response =
  success :: bool
  status_code :: nat
  data :: "pyval option"

definition APIResponse_success :: "pyval \<Rightarrow> nat \<Rightarrow> response" where
  "APIResponse_success d code = \<lparr>success = True, status_code = code, data = Some d\<rparr>"

definition APIResponse_error :: "nat \<Rightarrow> response" where
  "APIResponse_error code = \<lparr>success = False, status_code = code, data = None\<rparr>"

definition except_400_500 :: "exn \<Rightarrow> response" where
  "except_400_500 e = (case e of ValueError v \<Rightarrow> APIResponse_error 400 | _ \<Rightarrow> APIResponse_error 500)"

definition create_profile ::
  "datetime \<Rightarrow> ProfileStorage \<Rightarrow> string \<Rightarrow> string \<Rightarrow> pyval \<Rightarrow> pyval \<Rightarrow> response \<times> ProfileStorage" where
  "create_profile now st uid nm ag rl =
     (if uid = [] \<or> nm = [] then (APIResponse_error 400, st)
      else if \<not> isinstance_int ag \<or> int_of ag < 0 \<or> int_of ag > 150
        then (APIResponse_error 400, st)
      else if rl \<notin> set [PStr ''student'', PStr ''gym_teacher'']
        then (APIResponse_error 400, st)
      else
        (case ProfileStorage_create_profile now st uid nm ag rl of
           (Inr profile, st') \<Rightarrow>
             (case UserProfileSerializer_serialize profile of
                Inr serialized \<Rightarrow> (APIResponse_success serialized 201, st')
              | Inl e \<Rightarrow> (except_400_500 e, st'))
         | (Inl e, st') \<Rightarrow> (except_400_500 e, st')))"

definition get_profile :: "ProfileStorage \<Rightarrow> string \<Rightarrow> response" where
  "get_profile st uid =
     (case ProfileStorage_get_profile st uid of
        None \<Rightarrow> APIResponse_error 404
      | Some profile \<Rightarrow>
          (case UserProfileSerializer_serialize profile of
             Inr serialized \<Rightarrow> APIResponse_success serialized 200
           | Inl e \<Rightarrow> APIResponse_error 500))"

definition update_profile :: "ProfileStorage \<Rightarrow> string \<Rightarrow> kwargs \<Rightarrow> response \<times> ProfileStorage" where
  "update_profile st uid kw =
     (case ProfileStorage_update_profile st uid kw of
        (Inr None, st') \<Rightarrow> (APIResponse_error 404, st')
      | (Inr (Some profile), st') \<Rightarrow>
          (case UserProfileSerializer_serialize profile of
             Inr serialized \<Rightarrow> (APIResponse_success serialized 200, st')
           | Inl e \<Rightarrow> (except_400_500 e, st'))
      | (Inl e, st') \<Rightarrow> (except_400_500 e, st'))"

definition delete_profile :: "ProfileStorage \<Rightarrow> string \<Rightarrow> response \<times> ProfileStorage" where
  "delete_profile st uid =
     (case ProfileStorage_delete_profile st uid of
        (Inr False, st') \<Rightarrow> (APIResponse_error 404, st')
      | (Inr True, st') \<Rightarrow> (APIResponse_success PNone 200, st')
      | (Inl e, st') \<Rightarrow> (APIResponse_error 500, st'))"

text \<open>
  \<^verbatim>\<open>list_profiles(role=None)\<close>: \<^verbatim>\<open>if role:\<close> is false for \<^verbatim>\<open>None\<close> and for the
  empty string. \<open>None\<close> of the inner result stands for the early \<^verbatim>\<open>return\<close> of the
  400 response.
\<close>

definition list_profiles :: "ProfileStorage \<Rightarrow> string option \<Rightarrow> response" where
  "list_profiles st rl =
     (case (case rl of
              Some r \<Rightarrow>
                (if r \<noteq> [] then
                   (if r \<notin> set [''student'', ''gym_teacher''] then None
                    else Some (get_profiles_by_role st r))
                 else Some (Inr (get_all_profiles st)))
            | None \<Rightarrow> Some (Inr (get_all_profiles st))) of
        None \<Rightarrow> APIResponse_error 400
      | Some (Inl e) \<Rightarrow> APIResponse_error 500
      | Some (Inr profs) \<Rightarrow>
          (case serialize_list_view profs of
             Inr serialized \<Rightarrow> APIResponse_success serialized 200
           | Inl e \<Rightarrow> APIResponse_error 500))"

text \<open>
  \<^verbatim>\<open>add_activity\<close>: \<^verbatim>\<open>not activity_type\<close> holds for the empty string. After a
  successful append the profile is fetched again and serialized; serializing \<^verbatim>\<open>None\<close>
  would raise \<^verbatim>\<open>AttributeError\<close>.
\<close>

definition add_activity ::
  "datetime \<Rightarrow> ProfileStorage \<Rightarrow> string \<Rightarrow> string \<Rightarrow> pyval \<Rightarrow> pyval \<Rightarrow> string
     \<Rightarrow> response \<times> ProfileStorage" where
  "add_activity now st uid ty dur cal nt =
     (if ty = [] then (APIResponse_error 400, st)
      else if \<not> isinstance_int dur \<or> int_of dur \<le> 0 then (APIResponse_error 400, st)
      else if \<not> isinstance_int cal \<or> int_of cal < 0 then (APIResponse_error 400, st)
      else
        (case add_activity_to_profile now st uid (PStr ty) dur cal (PStr nt) of
           (Inr False, st') \<Rightarrow> (APIResponse_error 404, st')
         | (Inr True, st') \<Rightarrow>
             (case ProfileStorage_get_profile st' uid of
                None \<Rightarrow> (APIResponse_error 500, st')
              | Some profile \<Rightarrow>
                  (case UserProfileSerializer_serialize profile of
                     Inr serialized \<Rightarrow> (APIResponse_success serialized 201, st')
                   | Inl e \<Rightarrow> (except_400_500 e, st')))
         | (Inl e, st') \<Rightarrow> (except_400_500 e, st')))"

text \<open>
  \<^verbatim>\<open>get_user_statistics\<close>: the entries of the dictionary are computed in order, and
  any exception is answered with 500.
\<close>

definition get_user_statistics :: "ProfileStorage \<Rightarrow> string \<Rightarrow> response" where
  "get_user_statistics st uid =
     (case ProfileStorage_get_profile st uid of
        None \<Rightarrow> APIResponse_error 404
      | Some profile \<Rightarrow>
          (case (case dot_value (role profile) of Inl e \<Rightarrow> Inl e | Inr rv \<Rightarrow>
                (case get_total_activity_time profile of Inl e \<Rightarrow> Inl e | Inr total_time \<Rightarrow>
                (case get_total_calories_burned profile of Inl e \<Rightarrow> Inl e | Inr total_calories \<Rightarrow>
                   Inr (PDict
                     [(''user_id'', PStr uid),
                      (''name'', name profile),
                      (''role'', PStr rv),
                      (''total_activities'', PInt (get_total_activities profile)),
                      (''total_activity_time_minutes'', PInt total_time),
                      (''total_calories_burned'', PInt total_calories),
                      (''average_calories_per_activity'',
                         PInt (if get_total_activities profile > 0
                               then total_calories div get_total_activities profile
                               else 0))])))) of
             Inr stats \<Rightarrow> APIResponse_success stats 200
           | Inl e \<Rightarrow> APIResponse_error 500))"

subsection \<open>Notions of the specification\<close>

text \<open>
  The profiles the specification speaks of. The role is a member of the enumeration and
  the durations and calories of the activities are integers (\<open>stats_ok\<close>: the statistics
  can be computed); every attribute that is written to the file as it is can be written
  (\<open>json_fields\<close>); the age is in range and every point in time is one that
  \<^verbatim>\<open>datetime\<close> can hold (\<open>valid_profile\<close>).
\<close>

definition is_member :: "pyval \<Rightarrow> bool" where
  "is_member v = (case v of PEnum r \<Rightarrow> True | _ \<Rightarrow> False)"

definition stats_ok :: "UserProfile \<Rightarrow> bool" where
  "stats_ok p =
     (is_member (role p)
      \<and> list_all (\<lambda>a. isinstance_int (duration_minutes a) \<and> isinstance_int (calories_burned a))
           (activity_history p))"

definition json_fields :: "UserProfile \<Rightarrow> bool" where
  "json_fields p =
     (json_ok (user_id p) \<and> json_ok (name p) \<and> json_ok (age p)
      \<and> list_all (\<lambda>a. json_ok (activity_type a) \<and> json_ok (duration_minutes a)
                      \<and> json_ok (calories_burned a) \<and> json_ok (notes a))
           (activity_history p))"

definition valid_profile :: "UserProfile \<Rightarrow> bool" where
  "valid_profile p =
     (stats_ok p
      \<and> isinstance_int (age p) \<and> 0 \<le> int_of (age p) \<and> int_of (age p) \<le> 150
      \<and> valid_datetime (created_at p)
      \<and> list_all (\<lambda>a. valid_datetime (timestamp a)) (activity_history p))"

text \<open>
  The storage states the specification speaks of. In a state that is \<open>savable\<close> every
  profile can be encoded and written. In a storage state proper, \<open>storage_ok\<close>, the keys
  of the dictionary are moreover pairwise different and the profiles are valid. The
  views take a storage state to a storage state (the lemmas on reachable storage states
  below), so a storage that starts from no file, or from a file it wrote, and is used
  through the views with arguments of the documented types stays one
  (\<open>reachable_storage_ok\<close>).
\<close>

definition savable :: "ProfileStorage \<Rightarrow> bool" where
  "savable st = list_all (\<lambda>item. stats_ok (snd item) \<and> json_fields (snd item)) (profiles st)"

definition storage_ok :: "ProfileStorage \<Rightarrow> bool" where
  "storage_ok st =
     (distinct (map fst (profiles st))
      \<and> list_all (\<lambda>item. valid_profile (snd item) \<and> json_fields (snd item)) (profiles st))"

text \<open>
  The structured record of a profile, as the specification describes it: the six
  attributes, the role as its text, the points in time as ISO-8601 texts, and the derived
  statistics. \<open>list_record\<close> is the reduced record of the list view, and \<open>file_of\<close> the
  file that holds the records of a dictionary of profiles under their keys.
\<close>

definition total_duration :: "UserProfile \<Rightarrow> int" where
  "total_duration p = sum_list (map (\<lambda>a. int_of (duration_minutes a)) (activity_history p))"

definition total_calories :: "UserProfile \<Rightarrow> int" where
  "total_calories p = sum_list (map (\<lambda>a. int_of (calories_burned a)) (activity_history p))"

definition role_text :: "pyval \<Rightarrow> string" where
  "role_text v = (case v of PEnum r \<Rightarrow> role_value r | _ \<Rightarrow> [])"

definition activity_record :: "ActivityEntry \<Rightarrow> pyval" where
  "activity_record a =
     PDict [(''activity_type'', activity_type a),
            (''duration_minutes'', duration_minutes a),
            (''calories_burned'', calories_burned a),
            (''timestamp'', PStr (isoformat (timestamp a))),
            (''notes'', notes a)]"

definition profile_record :: "UserProfile \<Rightarrow> pyval" where
  "profile_record p =
     PDict [(''user_id'', user_id p),
            (''name'', name p),
            (''age'', age p),
            (''role'', PStr (role_text (role p))),
            (''created_at'', PStr (isoformat (created_at p))),
            (''activity_history'', PList (map activity_record (activity_history p))),
            (''stats'', PDict [(''total_activities'', PInt (int (length (activity_history p)))),
                               (''total_activity_time_minutes'', PInt (total_duration p)),
                               (''total_calories_burned'', PInt (total_calories p))])]"

definition list_record :: "UserProfile \<Rightarrow> pyval" where
  "list_record p =
     PDict [(''user_id'', user_id p),
            (''name'', name p),
            (''age'', age p),
            (''role'', PStr (role_text (role p))),
            (''total_activities'', PInt (int (length (activity_history p)))),
            (''total_calories_burned'', PInt (total_calories p))]"

definition file_of :: "(string \<times> UserProfile) list \<Rightarrow> file_state" where
  "file_of profs = Content (PDict (map (\<lambda>item. (fst item, profile_record (snd item))) profs))"

text \<open>
  The specification's words for the average: the integer-truncating division, which
  drops the fractional part of the quotient (rounds towards zero).
\<close>

definition trunc_div :: "int \<Rightarrow> int \<Rightarrow> int" where
  "trunc_div a b = sgn a * sgn b * (\<bar>a\<bar> div \<bar>b\<bar>)"

text \<open>
  The specification's words for \<^verbatim>\<open>updateProfile\<close>: only the supplied subset of name,
  age and role changes. A supplied role text stands for the member with that value.
\<close>

definition role_of_arg :: "pyval \<Rightarrow> pyval" where
  "role_of_arg v =
     (case v of
        PStr s \<Rightarrow> PEnum (if s = ''gym_teacher'' then GYM_TEACHER else STUDENT)
      | _ \<Rightarrow> v)"

definition patched :: "kwargs \<Rightarrow> UserProfile \<Rightarrow> UserProfile" where
  "patched kw p =
     p\<lparr>name := (case kw_name kw of Some n \<Rightarrow> n | None \<Rightarrow> name p),
       age := (case kw_age kw of Some a \<Rightarrow> a | None \<Rightarrow> age p),
       role := (case kw_role kw of Some v \<Rightarrow> role_of_arg v | None \<Rightarrow> role p)\<rparr>"

text \<open>
  The two checks of \<^verbatim>\<open>update_profile\<close> read off its branches: the supplied age is
  refused, the supplied role text is refused. \<open>typed_patch\<close>: the keyword arguments are of
  the documented types as far as nothing checks them, a name that can be written to the
  file and a role that is a text or a member of the enumeration.
\<close>

definition age_refused :: "kwargs \<Rightarrow> bool" where
  "age_refused kw =
     (case kw_age kw of
        Some a \<Rightarrow> \<not> isinstance_int a \<or> int_of a < 0 \<or> int_of a > 150
      | None \<Rightarrow> False)"

definition role_refused :: "kwargs \<Rightarrow> bool" where
  "role_refused kw =
     (case kw_role kw of
        Some (PStr s) \<Rightarrow> s \<noteq> ''student'' \<and> s \<noteq> ''gym_teacher''
      | _ \<Rightarrow> False)"

definition typed_patch :: "kwargs \<Rightarrow> bool" where
  "typed_patch kw =
     ((case kw_name kw of Some n \<Rightarrow> json_ok n | None \<Rightarrow> True)
      \<and> (case kw_role kw of Some (PStr s) \<Rightarrow> True | Some (PEnum r) \<Rightarrow> True
                          | Some v \<Rightarrow> False | None \<Rightarrow> True))"

text \<open>
  The storage states that are reached when the storage starts from no file (or from a
  file that is not JSON) and is used through the views, at clock readings that
  \<^verbatim>\<open>datetime\<close> can hold and with keyword arguments of the documented types, restarts
  from its own file included. \<open>file_ok\<close>: the file is absent, is not JSON, or holds the
  records of a storage state.
\<close>

inductive reachable :: "ProfileStorage \<Rightarrow> bool" where
  start: "f = Absent \<or> f = Unparseable \<Longrightarrow> ProfileStorage_init now f = Inr (st, printed) \<Longrightarrow>
      reachable st"
| restart: "reachable st \<Longrightarrow> ProfileStorage_init now (storage_file st) = Inr (st', printed) \<Longrightarrow>
      reachable st'"
| create: "reachable st \<Longrightarrow> valid_datetime now \<Longrightarrow>
      reachable (snd (create_profile now st uid nm ag rl))"
| update: "reachable st \<Longrightarrow> typed_patch kw \<Longrightarrow> reachable (snd (update_profile st uid kw))"
| delete: "reachable st \<Longrightarrow> reachable (snd (delete_profile st uid))"
| add: "reachable st \<Longrightarrow> valid_datetime now \<Longrightarrow>
      reachable (snd (add_activity now st uid ty dur cal nt))"

definition file_ok :: "ProfileStorage \<Rightarrow> bool" where
  "file_ok st =
     (storage_file st = Absent \<or> storage_file st = Unparseable
      \<or> (\<exists>profs. storage_file st = file_of profs
             \<and> storage_ok \<lparr>profiles = profs, storage_file = storage_file st\<rparr>))"

text \<open>A field of the dictionary a response carries.\<close>

definition response_field :: "response \<Rightarrow> string \<Rightarrow> pyval option" where
  "response_field r k = (case data r of Some (PDict d) \<Rightarrow> map_of d k | _ \<Rightarrow> None)"

text \<open>The role text of an entry of the list view.\<close>

definition entry_has_role :: "string \<Rightarrow> pyval \<Rightarrow> bool" where
  "entry_has_role r entry =
     (case entry of PDict d \<Rightarrow> map_of d ''role'' = Some (PStr r) | _ \<Rightarrow> False)"

subsection \<open>Example states\<close>

definition example_now :: datetime where
  "example_now = DateTime ''2024-05-01T10:30:00.123456''"

definition example_later :: datetime where
  "example_later = DateTime ''2024-05-02T18:00:00''"

definition empty_storage :: ProfileStorage where
  "empty_storage = \<lparr>profiles = [], storage_file = Absent\<rparr>"

text \<open>
  The storage after \<^verbatim>\<open>create_profile("student_001", "Alice Johnson", 16, "student")\<close>
  and \<^verbatim>\<open>create_profile("teacher_001", "Paul Smith", 45, "gym_teacher")\<close>.
\<close>

definition two_profiles :: ProfileStorage where
  "two_profiles =
     snd (ProfileStorage_create_profile example_now
            (snd (ProfileStorage_create_profile example_now empty_storage
                    ''student_001'' ''Alice Johnson'' (PInt 16) (PStr ''student'')))
            ''teacher_001'' ''Paul Smith'' (PInt 45) (PStr ''gym_teacher''))"

text \<open>
  \<open>two_profiles\<close> after \<^verbatim>\<open>add_activity("student_001", "running", 30, 300, "Evening jog")\<close>
  and \<^verbatim>\<open>add_activity("student_001", "strength_training", 45, 350, "")\<close>.
\<close>

definition with_activities :: ProfileStorage where
  "with_activities =
     snd (add_activity example_later
            (snd (add_activity example_later two_profiles
                    ''student_001'' ''running'' (PInt 30) (PInt 300) ''Evening jog''))
            ''student_001'' ''strength_training'' (PInt 45) (PInt 350) [])"

text \<open>
  \<open>two_profiles\<close> after the storage calls
  \<^verbatim>\<open>add_activity_to_profile("student_001", "rest", 10, -3)\<close> and
  \<^verbatim>\<open>add_activity_to_profile("student_001", "rest", 10, 0)\<close>, which check nothing.
\<close>

definition with_negative_calories :: ProfileStorage where
  "with_negative_calories =
     snd (add_activity_to_profile example_later
            (snd (add_activity_to_profile example_later two_profiles
                    ''student_001'' (PStr ''rest'') (PInt 10) (PInt (- 3)) (PStr [])))
            ''student_001'' (PStr ''rest'') (PInt 10) (PInt 0) (PStr []))"

text \<open>The first profile of \<open>with_activities\<close>, written out.\<close>

definition alice :: UserProfile where
  "alice =
     \<lparr>user_id = PStr ''student_001'', name = PStr ''Alice Johnson'', age = PInt 16,
      role = PEnum STUDENT,
      activity_history =
        [\<lparr>activity_type = PStr ''running'', duration_minutes = PInt 30,
          calories_burned = PInt 300, timestamp = example_later, notes = PStr ''Evening jog''\<rparr>,
         \<lparr>activity_type = PStr ''strength_training'', duration_minutes = PInt 45,
          calories_burned = PInt 350, timestamp = example_later, notes = PStr []\<rparr>],
      created_at = example_now\<rparr>"

text \<open>
  \<^verbatim>\<open>update_profile(uid, name="Alice J.", age=17)\<close>,
  \<^verbatim>\<open>update_profile(uid, name="Bob", age=200)\<close> and \<^verbatim>\<open>update_profile(uid, role=None)\<close>.
\<close>

definition example_patch :: kwargs where
  "example_patch = \<lparr>kw_name = Some (PStr ''Alice J.''), kw_age = Some (PInt 17), kw_role = None\<rparr>"

definition bad_patch :: kwargs where
  "bad_patch = \<lparr>kw_name = Some (PStr ''Bob''), kw_age = Some (PInt 200), kw_role = None\<rparr>"

definition none_role_patch :: kwargs where
  "none_role_patch = \<lparr>kw_name = None, kw_age = None, kw_role = Some PNone\<rparr>"

text \<open>The second profile of \<open>two_profiles\<close>, written out.\<close>

definition paul :: UserProfile where
  "paul =
     \<lparr>user_id = PStr ''teacher_001'', name = PStr ''Paul Smith'', age = PInt 45,
      role = PEnum GYM_TEACHER, activity_history = [], created_at = example_now\<rparr>"

text \<open>
  A backing file whose only record has no \<^verbatim>\<open>role\<close> entry, and the storage that
  \<^verbatim>\<open>ProfileStorage\<close> builds from it.
\<close>

definition role_less_file :: file_state where
  "role_less_file =
     Content (PDict [(''u1'', PDict [(''user_id'', PStr ''u1''), (''name'', PStr ''Ann''),
                                     (''age'', PInt 20)])])"

definition role_less_storage :: ProfileStorage where
  "role_less_storage =
     \<lparr>profiles = [(''u1'', \<lparr>user_id = PStr ''u1'', name = PStr ''Ann'', age = PInt 20,
                             role = PNone, activity_history = [], created_at = example_now\<rparr>)],
      storage_file = role_less_file\<rparr>"

definition name_patch :: kwargs where
  "name_patch = \<lparr>kw_name = Some (PStr ''Ann B.''), kw_age = None, kw_role = None\<rparr>"

section \<open>Properties\<close>

subsection \<open>The example states\<close>

lemma with_activities_alice:
  "ProfileStorage_get_profile with_activities ''student_001'' = Some alice"
  by code_simp

lemma two_profiles_paul:
  "ProfileStorage_get_profile two_profiles ''teacher_001'' = Some paul"
  by code_simp

lemma valid_alice: "valid_profile alice"
  by code_simp

lemma storage_ok_with_activities: "storage_ok with_activities"
  by code_simp

subsection \<open>Encodable profiles\<close>

text \<open>
  On the profiles the specification speaks of nothing raises: the sums are the sums of
  the integers, and \<^verbatim>\<open>to_dict\<close>, the serializers and \<^verbatim>\<open>save_all\<close> return the
  structured records.
\<close>

lemma is_member_iff: "is_member v \<longleftrightarrow> (\<exists>r. v = PEnum r)"
  by (cases v) (simp_all add: is_member_def)

lemma sum_from_ints:
  "list_all isinstance_int xs \<Longrightarrow> sum_from acc xs = Inr (acc + sum_list (map int_of xs))"
  by (induction xs arbitrary: acc) simp_all

lemma total_time_ok:
  "stats_ok p \<Longrightarrow> get_total_activity_time p = Inr (total_duration p)"
  using sum_from_ints [of "map duration_minutes (activity_history p)" 0]
  by (simp add: stats_ok_def get_total_activity_time_def py_sum_def total_duration_def
      list_all_iff comp_def)

lemma total_calories_ok:
  "stats_ok p \<Longrightarrow> get_total_calories_burned p = Inr (total_calories p)"
  using sum_from_ints [of "map calories_burned (activity_history p)" 0]
  by (simp add: stats_ok_def get_total_calories_burned_def py_sum_def total_calories_def
      list_all_iff comp_def)

lemma dot_value_ok: "stats_ok p \<Longrightarrow> dot_value (role p) = Inr (role_text (role p))"
  by (auto simp: stats_ok_def is_member_iff dot_value_def role_text_def)

lemma activity_record_to_dict: "ActivityEntry_to_dict = activity_record"
  by (rule ext) (simp add: ActivityEntry_to_dict_def activity_record_def)

lemma activity_record_serialize: "ActivitySerializer_serialize = activity_record"
  by (rule ext) (simp add: ActivitySerializer_serialize_def activity_record_def)

lemma to_dict_ok: "stats_ok p \<Longrightarrow> UserProfile_to_dict p = Inr (profile_record p)"
  by (simp add: UserProfile_to_dict_def dot_value_ok total_time_ok total_calories_ok
      profile_record_def get_total_activities_def activity_record_to_dict)

lemma serialize_ok: "stats_ok p \<Longrightarrow> UserProfileSerializer_serialize p = Inr (profile_record p)"
  by (simp add: UserProfileSerializer_serialize_def dot_value_ok total_time_ok total_calories_ok
      profile_record_def get_total_activities_def ActivitySerializer_serialize_many_def
      activity_record_serialize)

lemma list_view_entry_ok: "stats_ok p \<Longrightarrow> list_view_entry p = Inr (list_record p)"
  by (simp add: list_view_entry_def dot_value_ok total_calories_ok list_record_def
      get_total_activities_def)

lemma list_comp_total:
  "(\<forall>x \<in> set xs. f x = Inr (g x)) \<Longrightarrow> list_comp f xs = Inr (map g xs)"
  by (induction xs) simp_all

lemma json_ok_record: "json_fields p \<Longrightarrow> json_ok (profile_record p)"
  by (simp add: json_fields_def profile_record_def activity_record_def list_all_iff)

lemma save_all_ok:
  "savable st \<Longrightarrow> save_all st = (None, st\<lparr>storage_file := file_of (profiles st)\<rparr>)"
proof -
  assume s: "savable st"
  let ?f = "\<lambda>item. case UserProfile_to_dict (snd item) of
                               Inl e \<Rightarrow> Inl e
                             | Inr d \<Rightarrow> Inr (fst item, d)"
  let ?g = "\<lambda>item. (fst item, profile_record (snd item))"
  have "\<forall>item \<in> set (profiles st). ?f item = Inr (?g item)"
    using s by (simp add: savable_def list_all_iff to_dict_ok)
  then have c: "list_comp ?f (profiles st) = Inr (map ?g (profiles st))"
    by (rule list_comp_total)
  have j: "json_ok (PDict (map ?g (profiles st)))"
    using s by (simp add: savable_def list_all_iff json_ok_record)
  show ?thesis
    unfolding save_all_def c using j by (simp add: file_of_def)
qed

lemma storage_ok_savable: "storage_ok st \<Longrightarrow> savable st"
  by (simp add: storage_ok_def savable_def valid_profile_def list_all_iff)

subsection \<open>Construction of a profile\<close>

text \<open>
  C1, as the claim states it, fails: the constructor checks the role only when it is a
  text. \<^verbatim>\<open>UserProfile("u1", "Ann", 20, None)\<close> returns a profile whose role is
  \<^verbatim>\<open>None\<close>, which is neither of the two texts nor a member of the enumeration, and
  \<^verbatim>\<open>from_dict\<close> builds the same profile from a record that has no \<^verbatim>\<open>role\<close> entry.
\<close>

theorem UserProfile_init_none_role_counterexample:
  "UserProfile_init example_now (PStr ''u1'') (PStr ''Ann'') (PInt 20) PNone
     = Inr \<lparr>user_id = PStr ''u1'', name = PStr ''Ann'', age = PInt 20, role = PNone,
            activity_history = [], created_at = example_now\<rparr>
   \<and> PNone \<notin> set [PStr ''student'', PStr ''gym_teacher'', PEnum STUDENT, PEnum GYM_TEACHER]
   \<and> UserProfile_from_dict example_now
        (PDict [(''user_id'', PStr ''u1''), (''name'', PStr ''Ann''), (''age'', PInt 20)])
     = Inr \<lparr>user_id = PStr ''u1'', name = PStr ''Ann'', age = PInt 20, role = PNone,
            activity_history = [], created_at = example_now\<rparr>"
  by code_simp

text \<open>
  C1, amended. For a role that is a text or a member of the enumeration, constructing a
  \<^verbatim>\<open>UserProfile\<close> succeeds if and only if the age is an integer between 0 and 150 and
  the role is the text \<^verbatim>\<open>student\<close> or \<^verbatim>\<open>gym_teacher\<close> or a member. For any role
  at all it succeeds if and only if the age is such an integer and the role is not a text
  other than these two. The profile it returns has no activities and holds the
  arguments, the role text replaced by the member it stands for. An age that is not an
  integer in the range raises the \<^verbatim>\<open>ValueError\<close> of the age check, any other role text
  raises a \<^verbatim>\<open>ValueError\<close>, and then there is no profile.
\<close>

theorem UserProfile_init_succeeds_iff:
  "((\<exists>s. rl = PStr s) \<or> (\<exists>r. rl = PEnum r) \<longrightarrow>
      ((\<exists>p. UserProfile_init now uid nm ag rl = Inr p) \<longleftrightarrow>
         (isinstance_int ag \<and> 0 \<le> int_of ag \<and> int_of ag \<le> 150 \<and>
          (rl = PStr ''student'' \<or> rl = PStr ''gym_teacher'' \<or> (\<exists>r. rl = PEnum r)))))
   \<and> ((\<exists>p. UserProfile_init now uid nm ag rl = Inr p) \<longleftrightarrow>
        (isinstance_int ag \<and> 0 \<le> int_of ag \<and> int_of ag \<le> 150 \<and>
         (\<forall>s. rl = PStr s \<longrightarrow> s = ''student'' \<or> s = ''gym_teacher'')))
   \<and> (\<forall>p. UserProfile_init now uid nm ag rl = Inr p \<longrightarrow>
          get_total_activities p = 0 \<and> activity_history p = [] \<and>
          user_id p = uid \<and> name p = nm \<and> age p = ag \<and> created_at p = now \<and>
          role p = role_of_arg rl \<and>
          ((\<exists>s. rl = PStr s) \<or> (\<exists>r. rl = PEnum r) \<longrightarrow>
             (\<exists>r. role p = PEnum r \<and> (rl = PStr (role_value r) \<or> rl = PEnum r))))
   \<and> ((\<not> isinstance_int ag \<or> int_of ag < 0 \<or> 150 < int_of ag) \<longrightarrow>
          UserProfile_init now uid nm ag rl = Inl (ValueError AgeInvalid))
   \<and> ((\<exists>s. rl = PStr s \<and> s \<noteq> ''student'' \<and> s \<noteq> ''gym_teacher'') \<longrightarrow>
          (\<exists>v. UserProfile_init now uid nm ag rl = Inl (ValueError v)))"
  by (cases rl)
     (auto simp: UserProfile_init_def UserRole_call_def get_total_activities_def role_of_arg_def)

theorem UserProfile_init_succeeds_iff_witness:
  "(\<exists>p. UserProfile_init example_now (PStr ''student_001'') (PStr ''Alice Johnson'') (PInt 16)
          (PStr ''student'') = Inr p \<and> get_total_activities p = 0 \<and> role p = PEnum STUDENT)
   \<and> UserProfile_init example_now (PStr ''test_001'') (PStr ''Test User'') (PInt 200) (PStr ''student'')
       = Inl (ValueError AgeInvalid)
   \<and> (\<exists>v. UserProfile_init example_now (PStr ''test_001'') (PStr ''Test User'') (PInt 16)
          (PStr ''invalid_role'') = Inl (ValueError v))"
proof -
  note ok = UserProfile_init_succeeds_iff
    [of "PStr ''student''" example_now "PStr ''student_001''" "PStr ''Alice Johnson''" "PInt 16"]
  note bad_age = UserProfile_init_succeeds_iff
    [of "PStr ''student''" example_now "PStr ''test_001''" "PStr ''Test User''" "PInt 200"]
  note bad_role = UserProfile_init_succeeds_iff
    [of "PStr ''invalid_role''" example_now "PStr ''test_001''" "PStr ''Test User''" "PInt 16"]
  have typed: "(\<exists>s. PStr ''student'' = PStr s) \<or> (\<exists>r. PStr ''student'' = PEnum r)"
    by simp
  have "isinstance_int (PInt 16) \<and> 0 \<le> int_of (PInt 16) \<and> int_of (PInt 16) \<le> 150
      \<and> (PStr ''student'' = PStr ''student'' \<or> PStr ''student'' = PStr ''gym_teacher''
           \<or> (\<exists>r. PStr ''student'' = PEnum r))"
    by (simp add: isinstance_int_def int_of_def)
  with ok [THEN conjunct1, THEN mp, OF typed] obtain p where
    p: "UserProfile_init example_now (PStr ''student_001'') (PStr ''Alice Johnson'') (PInt 16)
          (PStr ''student'') = Inr p"
    by auto
  from ok [THEN conjunct2, THEN conjunct2, THEN conjunct1, rule_format, OF p]
  have "get_total_activities p = 0" and "role p = PEnum STUDENT"
    by (simp_all add: role_of_arg_def)
  with p have first: "\<exists>p. UserProfile_init example_now (PStr ''student_001'') (PStr ''Alice Johnson'')
      (PInt 16) (PStr ''student'') = Inr p \<and> get_total_activities p = 0 \<and> role p = PEnum STUDENT"
    by auto
  have "\<not> isinstance_int (PInt 200) \<or> int_of (PInt 200) < 0 \<or> 150 < int_of (PInt 200)"
    by (simp add: int_of_def)
  from bad_age [THEN conjunct2, THEN conjunct2, THEN conjunct2, THEN conjunct1, THEN mp, OF this]
  have second:
    "UserProfile_init example_now (PStr ''test_001'') (PStr ''Test User'') (PInt 200) (PStr ''student'')
       = Inl (ValueError AgeInvalid)" .
  have "\<exists>s. PStr ''invalid_role'' = PStr s \<and> s \<noteq> ''student'' \<and> s \<noteq> ''gym_teacher''"
    by simp
  from bad_role [THEN conjunct2, THEN conjunct2, THEN conjunct2, THEN conjunct2, THEN mp, OF this]
  have third:
    "\<exists>v. UserProfile_init example_now (PStr ''test_001'') (PStr ''Test User'') (PInt 16)
        (PStr ''invalid_role'') = Inl (ValueError v)" .
  from first second third show ?thesis by (intro conjI)
qed

subsection \<open>Creating a profile twice\<close>

text \<open>
  C2. When the user id is already a key of the storage, \<^verbatim>\<open>create_profile\<close> of either
  storage class raises the \<^verbatim>\<open>ValueError\<close> of the duplicate key and the view answers
  400; the storage, its file and the profile stored under that id are what they were.
\<close>

theorem create_profile_duplicate:
  "map_of (profiles st) uid = Some p \<Longrightarrow>
     ProfileStorage_create_profile now st uid nm ag rl = (Inl (ValueError AlreadyExists), st)
   \<and> InMemoryProfileStorage_create_profile now (profiles st) uid nm ag rl
        = (Inl (ValueError AlreadyExists), profiles st)
   \<and> create_profile now st uid nm ag rl = (APIResponse_error 400, st)
   \<and> ProfileStorage_get_profile (snd (create_profile now st uid nm ag rl)) uid = Some p"
  by (simp add: ProfileStorage_create_profile_def InMemoryProfileStorage_create_profile_def
      create_profile_def py_in_def ProfileStorage_get_profile_def except_400_500_def)

theorem create_profile_duplicate_witness:
  "map_of (profiles with_activities) ''student_001'' = Some alice
   \<and> ProfileStorage_create_profile example_later with_activities
        ''student_001'' ''User Two'' (PInt 17) (PStr ''student'')
       = (Inl (ValueError AlreadyExists), with_activities)
   \<and> status_code (fst (create_profile example_later with_activities
        ''student_001'' ''User Two'' (PInt 17) (PStr ''student''))) = 400
   \<and> ProfileStorage_get_profile (snd (create_profile example_later with_activities
        ''student_001'' ''User Two'' (PInt 17) (PStr ''student''))) ''student_001'' = Some alice"
proof -
  have h: "map_of (profiles with_activities) ''student_001'' = Some alice"
    using with_activities_alice by (simp add: ProfileStorage_get_profile_def)
  show ?thesis
    using h with_activities_alice
      create_profile_duplicate [OF h, of example_later "''User Two''" "PInt 17" "PStr ''student''"]
    by (simp add: APIResponse_error_def)
qed

subsection \<open>Encoding and decoding\<close>

lemma fromisoformat_isoformat:
  "valid_datetime t \<Longrightarrow> fromisoformat (PStr (isoformat t)) = Inr t"
  by (cases t) (simp add: valid_datetime_def fromisoformat_def isoformat_def)

lemma ActivityEntry_roundtrip:
  "valid_datetime (timestamp a) \<Longrightarrow> ActivityEntry_from_dict now (activity_record a) = Inr a"
  by (simp add: ActivityEntry_from_dict_def activity_record_def py_get_def
      py_get_default_def py_in_def ActivityEntry_init_def fromisoformat_isoformat)

lemma restore_activities_to_dict:
  "list_all (\<lambda>a. valid_datetime (timestamp a)) xs \<Longrightarrow>
   restore_activities now (map activity_record xs) p =
     Inr (p\<lparr>activity_history := activity_history p @ xs\<rparr>)"
  by (induction xs arbitrary: p) (simp_all add: ActivityEntry_roundtrip)

lemma from_dict_record:
  "valid_profile x \<Longrightarrow> UserProfile_from_dict now (profile_record x) = Inr x"
proof -
  assume v: "valid_profile x"
  then obtain r where r: "role x = PEnum r"
    by (auto simp: valid_profile_def stats_ok_def is_member_iff)
  have call: "UserRole_call (role_value r) = Inr r"
    by (cases r) (simp_all add: UserRole_call_def)
  from v r call show ?thesis
    by (simp add: valid_profile_def UserProfile_from_dict_def profile_record_def py_get_def
      py_get_default_def py_in_def UserProfile_init_def role_text_def
      fromisoformat_isoformat py_iter_def restore_activities_to_dict)
qed

text \<open>
  C3. Encoding a valid profile succeeds, and decoding the encoding gives the profile
  back, whatever the clock shows at the time of decoding: the same identifier, name, age,
  role and creation time, and the same activities in the same order, each with its type,
  duration, calories, notes and its own timestamp. The same holds for each activity
  alone.
\<close>

theorem UserProfile_roundtrip:
  "valid_profile x \<Longrightarrow>
     (\<exists>d. UserProfile_to_dict x = Inr d \<and> UserProfile_from_dict now d = Inr x)
   \<and> (\<forall>a \<in> set (activity_history x). ActivityEntry_from_dict now (ActivityEntry_to_dict a) = Inr a)"
  by (simp add: from_dict_record to_dict_ok valid_profile_def list_all_iff ActivityEntry_roundtrip
      activity_record_to_dict)

theorem UserProfile_roundtrip_witness:
  "valid_profile alice \<and> length (activity_history alice) = 2
   \<and> (\<exists>d. UserProfile_to_dict alice = Inr d \<and> UserProfile_from_dict example_later d = Inr alice)"
proof -
  have n: "length (activity_history alice) = 2" by (simp add: alice_def)
  show ?thesis
    using valid_alice n UserProfile_roundtrip [OF valid_alice, of example_later] by simp
qed

subsection \<open>Saving and loading\<close>

lemma map_of_dict_set:
  "map_of (dict_set k v d) k' = (if k' = k then Some v else map_of d k')"
  by (induction d) auto

lemma dict_set_fresh: "k \<notin> fst ` set d \<Longrightarrow> dict_set k v d = d @ [(k, v)]"
  by (induction d) auto

lemma map_fst_dict_set:
  "map_of d k = Some v' \<Longrightarrow> map fst (dict_set k v d) = map fst d"
  by (induction d) (auto split: if_splits)

lemma load_items_records:
  "list_all (\<lambda>item. valid_profile (snd item)) ps \<Longrightarrow> distinct (map fst ps) \<Longrightarrow>
   fst ` set ps \<inter> fst ` set acc = {} \<Longrightarrow>
   load_items now (map (\<lambda>item. (fst item, profile_record (snd item))) ps) acc
     = Inr (acc @ ps)"
proof (induction ps arbitrary: acc)
  case Nil
  then show ?case by simp
next
  case (Cons item ps)
  obtain k p where item: "item = (k, p)" by (cases item)
  from Cons.prems item have fresh: "k \<notin> fst ` set acc" by auto
  from Cons.prems item have valid: "valid_profile p" by simp
  from Cons.prems item have disj: "fst ` set ps \<inter> fst ` set (acc @ [(k, p)]) = {}" by auto
  from Cons.prems have rest: "list_all (\<lambda>item. valid_profile (snd item)) ps" "distinct (map fst ps)"
    by simp_all
  from Cons.IH [OF rest disj] show ?case
    by (simp add: item from_dict_record [OF valid] dict_set_fresh [OF fresh])
qed

lemma init_file_of:
  "storage_ok st \<Longrightarrow>
     ProfileStorage_init now (file_of (profiles st))
       = Inr (st\<lparr>storage_file := file_of (profiles st)\<rparr>, [])"
  using load_items_records [of "profiles st" "[]" now]
  by (simp add: storage_ok_def ProfileStorage_init_def load_all_def file_of_def list_all_iff)






subsection \<open>Statistics\<close>

text \<open>
  C5, as the claim states it, fails: \<^verbatim>\<open>//\<close> rounds towards minus infinity. For a
  profile whose two activities have the calories -3 and 0 (the storage and the entity
  accept any integer) the view reports the average -2, and the truncating division of
  -3 by 2 is -1.
\<close>

theorem average_truncating_counterexample:
  "response_field (get_user_statistics with_negative_calories ''student_001'')
       ''total_calories_burned'' = Some (PInt (- 3))
   \<and> response_field (get_user_statistics with_negative_calories ''student_001'')
       ''total_activities'' = Some (PInt 2)
   \<and> response_field (get_user_statistics with_negative_calories ''student_001'')
       ''average_calories_per_activity'' = Some (PInt (- 2))
   \<and> trunc_div (- 3) 2 = - 1
   \<and> response_field (get_user_statistics with_negative_calories ''student_001'')
       ''average_calories_per_activity'' \<noteq> Some (PInt (trunc_div (- 3) 2))"
  by code_simp

text \<open>On a non-negative dividend the two divisions agree.\<close>

lemma trunc_div_nonneg: "0 \<le> a \<Longrightarrow> 0 < b \<Longrightarrow> trunc_div a b = a div b"
  by (cases "a = 0") (simp_all add: trunc_div_def)

lemma floor_div_bounds:
  fixes a b :: int
  assumes "0 < b"
  shows "(a div b) * b \<le> a \<and> a < (a div b + 1) * b"
proof -
  define x where "x = a div b * b"
  have "a = x + a mod b" by (simp add: x_def)
  moreover have "0 \<le> a mod b" "a mod b < b" using assms by simp_all
  ultimately have "x \<le> a \<and> a < x + b" by linarith
  then show ?thesis by (simp add: x_def algebra_simps)
qed

lemma get_user_statistics_ok:
  "ProfileStorage_get_profile st uid = Some p \<Longrightarrow> stats_ok p \<Longrightarrow>
     get_user_statistics st uid =
       APIResponse_success
         (PDict [(''user_id'', PStr uid),
                 (''name'', name p),
                 (''role'', PStr (role_text (role p))),
                 (''total_activities'', PInt (int (length (activity_history p)))),
                 (''total_activity_time_minutes'', PInt (total_duration p)),
                 (''total_calories_burned'', PInt (total_calories p)),
                 (''average_calories_per_activity'',
                    PInt (if 0 < int (length (activity_history p))
                          then total_calories p div int (length (activity_history p))
                          else 0))]) 200"
  by (simp add: get_user_statistics_def dot_value_ok total_time_ok total_calories_ok
      get_total_activities_def)

text \<open>
  C5, amended. For a stored profile (its role a member of the enumeration, the durations
  and calories of its activities integers) \<^verbatim>\<open>get_user_statistics\<close> answers 200 with the
  number of activities, the sum of their durations and the sum of their calories. The
  average is 0 when there is no activity; otherwise it is the floor of the quotient of
  the calories by the number of activities, which is the truncating division whenever
  the total calories are not negative. After activities with the durations 30 and 45
  and the calories 300 and 350 the three values are 75, 650 and 325.
\<close>

theorem get_user_statistics_values:
  "ProfileStorage_get_profile st uid = Some p \<Longrightarrow> stats_ok p \<Longrightarrow>
     status_code (get_user_statistics st uid) = 200
   \<and> success (get_user_statistics st uid)
   \<and> response_field (get_user_statistics st uid) ''total_activities''
        = Some (PInt (int (length (activity_history p))))
   \<and> response_field (get_user_statistics st uid) ''total_activity_time_minutes''
        = Some (PInt (sum_list (map (\<lambda>a. int_of (duration_minutes a)) (activity_history p))))
   \<and> response_field (get_user_statistics st uid) ''total_calories_burned''
        = Some (PInt (sum_list (map (\<lambda>a. int_of (calories_burned a)) (activity_history p))))
   \<and> (activity_history p = [] \<longrightarrow>
        response_field (get_user_statistics st uid) ''average_calories_per_activity''
          = Some (PInt 0))
   \<and> (activity_history p \<noteq> [] \<longrightarrow>
        (\<exists>q. response_field (get_user_statistics st uid) ''average_calories_per_activity''
               = Some (PInt q)
            \<and> q * int (length (activity_history p))
                \<le> sum_list (map (\<lambda>a. int_of (calories_burned a)) (activity_history p))
            \<and> sum_list (map (\<lambda>a. int_of (calories_burned a)) (activity_history p))
                < (q + 1) * int (length (activity_history p))))
   \<and> (activity_history p \<noteq> []
        \<and> 0 \<le> sum_list (map (\<lambda>a. int_of (calories_burned a)) (activity_history p)) \<longrightarrow>
        response_field (get_user_statistics st uid) ''average_calories_per_activity''
          = Some (PInt (trunc_div
                (sum_list (map (\<lambda>a. int_of (calories_burned a)) (activity_history p)))
                (int (length (activity_history p))))))"
proof -
  assume p: "ProfileStorage_get_profile st uid = Some p" and ok: "stats_ok p"
  let ?n = "int (length (activity_history p))"
  let ?total = "sum_list (map (\<lambda>a. int_of (calories_burned a)) (activity_history p))"
  note r = get_user_statistics_ok [OF p ok]
  have avg: "response_field (get_user_statistics st uid) ''average_calories_per_activity''
      = Some (PInt (if 0 < ?n then ?total div ?n else 0))"
    by (simp add: r response_field_def APIResponse_success_def total_calories_def)
  have pos: "activity_history p \<noteq> [] \<Longrightarrow> 0 < ?n" by simp
  have rest: "status_code (get_user_statistics st uid) = 200
     \<and> success (get_user_statistics st uid)
     \<and> response_field (get_user_statistics st uid) ''total_activities'' = Some (PInt ?n)
     \<and> response_field (get_user_statistics st uid) ''total_activity_time_minutes''
        = Some (PInt (sum_list (map (\<lambda>a. int_of (duration_minutes a)) (activity_history p))))
     \<and> response_field (get_user_statistics st uid) ''total_calories_burned'' = Some (PInt ?total)"
    by (simp add: r response_field_def APIResponse_success_def total_calories_def
        total_duration_def)
  have empty: "activity_history p = [] \<longrightarrow>
      response_field (get_user_statistics st uid) ''average_calories_per_activity'' = Some (PInt 0)"
    using avg by simp
  have floor: "activity_history p \<noteq> [] \<longrightarrow>
        (\<exists>q. response_field (get_user_statistics st uid) ''average_calories_per_activity''
               = Some (PInt q) \<and> q * ?n \<le> ?total \<and> ?total < (q + 1) * ?n)"
    using avg pos floor_div_bounds [of ?n ?total] by auto
  have trunc: "activity_history p \<noteq> [] \<and> 0 \<le> ?total \<longrightarrow>
        response_field (get_user_statistics st uid) ''average_calories_per_activity''
          = Some (PInt (trunc_div ?total ?n))"
    using avg pos trunc_div_nonneg [of ?total ?n] by auto
  from rest empty floor trunc show ?thesis by blast
qed

lemma stats_ok_alice: "stats_ok alice"
  by code_simp

lemma stats_ok_paul: "stats_ok paul"
  by code_simp

theorem get_user_statistics_values_witness:
  "ProfileStorage_get_profile with_activities ''student_001'' = Some alice
   \<and> stats_ok alice
   \<and> map duration_minutes (activity_history alice) = [PInt 30, PInt 45]
   \<and> map calories_burned (activity_history alice) = [PInt 300, PInt 350]
   \<and> response_field (get_user_statistics with_activities ''student_001'')
        ''total_activity_time_minutes'' = Some (PInt 75)
   \<and> response_field (get_user_statistics with_activities ''student_001'')
        ''total_calories_burned'' = Some (PInt 650)
   \<and> response_field (get_user_statistics with_activities ''student_001'')
        ''average_calories_per_activity'' = Some (PInt 325)
   \<and> response_field (get_user_statistics two_profiles ''teacher_001'')
        ''average_calories_per_activity'' = Some (PInt 0)"
proof -
  have h: "map duration_minutes (activity_history alice) = [PInt 30, PInt 45]"
    "map calories_burned (activity_history alice) = [PInt 300, PInt 350]"
    "activity_history alice \<noteq> []"
    "int (length (activity_history alice)) = 2"
    "sum_list (map (\<lambda>a. int_of (duration_minutes a)) (activity_history alice)) = 75"
    "sum_list (map (\<lambda>a. int_of (calories_burned a)) (activity_history alice)) = 650"
    by (simp_all add: alice_def int_of_def)
  have t: "trunc_div 650 2 = 325" by (simp add: trunc_div_def)
  have none: "activity_history paul = []" by (simp add: paul_def)
  show ?thesis
    using h t none with_activities_alice stats_ok_alice
      get_user_statistics_values [OF with_activities_alice stats_ok_alice]
      get_user_statistics_values [OF two_profiles_paul stats_ok_paul]
    by simp
qed

subsection \<open>Updating a profile\<close>

lemma sum_from_Inl: "sum_from acc xs = Inl e \<Longrightarrow> e = TypeError"
  by (induction xs arbitrary: acc) (auto split: if_splits)

lemma to_dict_Inl:
  "UserProfile_to_dict p = Inl e \<Longrightarrow> e = AttributeError \<or> e = TypeError"
  by (auto simp: UserProfile_to_dict_def dot_value_def get_total_activity_time_def
      get_total_calories_burned_def py_sum_def
      split: sum.splits pyval.splits dest: sum_from_Inl)

lemma save_items_Inl:
  "list_comp (\<lambda>item. case UserProfile_to_dict (snd item) of
                               Inl e \<Rightarrow> Inl e
                             | Inr d \<Rightarrow> Inr (fst item, d)) xs = Inl e
   \<Longrightarrow> e = AttributeError \<or> e = TypeError"
  by (induction xs) (auto split: sum.splits dest: to_dict_Inl)

lemma save_all_raises:
  "fst (save_all st) = Some e \<Longrightarrow> e = AttributeError \<or> e = TypeError"
  by (auto simp: save_all_def split: sum.splits if_splits dest: save_items_Inl)

lemma profiles_save_all: "profiles (snd (save_all st)) = profiles st"
  by (simp add: save_all_def split: sum.splits)

lemma update_profile_unknown:
  "ProfileStorage_get_profile st uid = None \<Longrightarrow>
     ProfileStorage_update_profile st uid kw = (Inr None, st)"
  by (simp add: ProfileStorage_update_profile_def)

lemma update_profile_age_refused:
  "ProfileStorage_get_profile st uid = Some p \<Longrightarrow> age_refused kw \<Longrightarrow>
     ProfileStorage_update_profile st uid kw =
       (Inl (ValueError AgeInvalid),
        st\<lparr>profiles := dict_set uid
              (p\<lparr>name := (case kw_name kw of Some n \<Rightarrow> n | None \<Rightarrow> name p)\<rparr>) (profiles st)\<rparr>)"
  by (cases "kw_name kw"; cases "kw_age kw")
     (simp_all add: ProfileStorage_update_profile_def Let_def age_refused_def)

lemma update_profile_role_refused:
  "ProfileStorage_get_profile st uid = Some p \<Longrightarrow> \<not> age_refused kw \<Longrightarrow> role_refused kw \<Longrightarrow>
     ProfileStorage_update_profile st uid kw =
       (Inl (ValueError NotAValidUserRole),
        st\<lparr>profiles := dict_set uid
              (p\<lparr>name := (case kw_name kw of Some n \<Rightarrow> n | None \<Rightarrow> name p),
                 age := (case kw_age kw of Some a \<Rightarrow> a | None \<Rightarrow> age p)\<rparr>) (profiles st)\<rparr>)"
  by (cases "kw_name kw"; cases "kw_age kw"; cases "kw_role kw")
     (auto simp: ProfileStorage_update_profile_def Let_def age_refused_def role_refused_def
        UserRole_call_def split: pyval.splits)

lemma update_profile_accepted:
  "ProfileStorage_get_profile st uid = Some p \<Longrightarrow> \<not> age_refused kw \<Longrightarrow> \<not> role_refused kw \<Longrightarrow>
     ProfileStorage_update_profile st uid kw =
       (case save_all (st\<lparr>profiles := dict_set uid (patched kw p) (profiles st)\<rparr>) of
          (Some e, st') \<Rightarrow> (Inl e, st')
        | (None, st') \<Rightarrow> (Inr (Some (patched kw p)), st'))"
  by (cases "kw_name kw"; cases "kw_age kw"; cases "kw_role kw")
     (auto simp: ProfileStorage_update_profile_def Let_def age_refused_def role_refused_def
        UserRole_call_def patched_def role_of_arg_def
        split: pyval.splits prod.splits option.splits)

lemma age_refused_as_init:
  "age_refused kw \<longleftrightarrow> (\<exists>a. kw_age kw = Some a \<and> isl (UserProfile_init now u n a (PEnum STUDENT)))"
  by (cases "kw_age kw") (auto simp: age_refused_def UserProfile_init_def)

lemma role_refused_as_init:
  "role_refused kw \<longleftrightarrow> (\<exists>rl. kw_role kw = Some rl \<and> isl (UserProfile_init now u n (PInt 0) rl))"
  by (cases "kw_role kw")
     (auto simp: role_refused_def UserProfile_init_def UserRole_call_def isinstance_int_def int_of_def
        split: pyval.splits)

lemma update_profile_view_state:
  "snd (update_profile st uid kw) = snd (ProfileStorage_update_profile st uid kw)"
  by (cases "ProfileStorage_update_profile st uid kw")
     (auto simp: update_profile_def split: sum.splits option.splits)

lemma update_profile_value_error:
  assumes p: "ProfileStorage_get_profile st uid = Some p"
  shows "(\<exists>v. fst (ProfileStorage_update_profile st uid kw) = Inl (ValueError v))
      \<longleftrightarrow> age_refused kw \<or> role_refused kw"
proof (cases "age_refused kw \<or> role_refused kw")
  case True
  then show ?thesis
    using update_profile_age_refused [OF p, of kw] update_profile_role_refused [OF p, of kw]
    by (cases "age_refused kw") auto
next
  case False
  then have a: "\<not> age_refused kw" and r: "\<not> role_refused kw" by simp_all
  let ?st = "st\<lparr>profiles := dict_set uid (patched kw p) (profiles st)\<rparr>"
  have "\<not> (\<exists>v. fst (ProfileStorage_update_profile st uid kw) = Inl (ValueError v))"
  proof (cases "save_all ?st")
    case (Pair raised st')
    show ?thesis
    proof (cases raised)
      case None
      with Pair show ?thesis by (simp add: update_profile_accepted [OF p a r])
    next
      case (Some e)
      with Pair have "fst (save_all ?st) = Some e" by simp
      from save_all_raises [OF this] Pair Some show ?thesis
        by (auto simp: update_profile_accepted [OF p a r])
    qed
  qed
  with False show ?thesis by simp
qed

lemma update_profile_stored:
  assumes p: "ProfileStorage_get_profile st uid = Some p"
  shows "\<exists>p'. profiles (snd (ProfileStorage_update_profile st uid kw)) = dict_set uid p' (profiles st)
      \<and> user_id p' = user_id p \<and> created_at p' = created_at p
      \<and> activity_history p' = activity_history p
      \<and> (kw_name kw = None \<longrightarrow> name p' = name p)
      \<and> (kw_age kw = None \<longrightarrow> age p' = age p)
      \<and> (kw_role kw = None \<longrightarrow> role p' = role p)"
proof (cases "age_refused kw")
  case True
  from update_profile_age_refused [OF p True] show ?thesis by auto
next
  case age_ok: False
  show ?thesis
  proof (cases "role_refused kw")
    case True
    from update_profile_role_refused [OF p age_ok True] show ?thesis by auto
  next
    case False
    let ?st = "st\<lparr>profiles := dict_set uid (patched kw p) (profiles st)\<rparr>"
    have "snd (ProfileStorage_update_profile st uid kw) = snd (save_all ?st)"
      by (cases "save_all ?st") (auto simp: update_profile_accepted [OF p age_ok False]
          split: option.splits)
    then have "profiles (snd (ProfileStorage_update_profile st uid kw))
        = dict_set uid (patched kw p) (profiles st)"
      by (simp add: profiles_save_all)
    then show ?thesis
      by (intro exI [of _ "patched kw p"]) (simp add: patched_def)
  qed
qed

lemma list_all_dict_set:
  "list_all P d \<Longrightarrow> P (k, v) \<Longrightarrow> list_all P (dict_set k v d)"
  by (induction d) auto

lemma list_all_map_of:
  "list_all P d \<Longrightarrow> map_of d k = Some v \<Longrightarrow> P (k, v)"
  by (induction d) (auto split: if_splits)

lemma map_fst_dict_set_cases:
  "map fst (dict_set k v d) = (if k \<in> set (map fst d) then map fst d else map fst d @ [k])"
  by (induction d) (force simp: image_iff)+

lemma distinct_dict_set:
  "distinct (map fst d) \<Longrightarrow> distinct (map fst (dict_set k v d))"
  by (simp add: map_fst_dict_set_cases)

lemma savable_stored:
  "savable st \<Longrightarrow> ProfileStorage_get_profile st uid = Some p \<Longrightarrow> stats_ok p \<and> json_fields p"
  using list_all_map_of [of "\<lambda>item. stats_ok (snd item) \<and> json_fields (snd item)" "profiles st" uid p]
  by (simp add: savable_def ProfileStorage_get_profile_def)

lemma savable_dict_set:
  "savable st \<Longrightarrow> stats_ok p \<Longrightarrow> json_fields p \<Longrightarrow>
     savable (st\<lparr>profiles := dict_set uid p (profiles st)\<rparr>)"
  by (simp add: savable_def list_all_dict_set)

lemma storage_ok_stored:
  "storage_ok st \<Longrightarrow> ProfileStorage_get_profile st uid = Some p \<Longrightarrow>
     valid_profile p \<and> json_fields p"
  using list_all_map_of [of "\<lambda>item. valid_profile (snd item) \<and> json_fields (snd item)" "profiles st" uid p]
  by (simp add: storage_ok_def ProfileStorage_get_profile_def)

lemma storage_ok_dict_set:
  "storage_ok st \<Longrightarrow> valid_profile p \<Longrightarrow> json_fields p \<Longrightarrow>
     storage_ok (st\<lparr>profiles := dict_set uid p (profiles st)\<rparr>)"
  by (simp add: storage_ok_def distinct_dict_set list_all_dict_set)

lemma json_ok_int: "isinstance_int v \<Longrightarrow> json_ok v"
  by (cases v) (simp_all add: isinstance_int_def)

lemma patched_encodable:
  assumes ok: "stats_ok p" "json_fields p"
    and typed: "typed_patch kw" and age_ok: "\<not> age_refused kw"
  shows "stats_ok (patched kw p) \<and> json_fields (patched kw p)"
proof -
  have n: "json_ok (case kw_name kw of Some n \<Rightarrow> n | None \<Rightarrow> name p)"
    using ok(2) typed by (cases "kw_name kw") (simp_all add: typed_patch_def json_fields_def)
  have a: "json_ok (case kw_age kw of Some a \<Rightarrow> a | None \<Rightarrow> age p)"
    using ok(2) age_ok by (cases "kw_age kw") (auto simp: age_refused_def json_fields_def json_ok_int)
  have r: "is_member (case kw_role kw of Some v \<Rightarrow> role_of_arg v | None \<Rightarrow> role p)"
    using ok(1) typed
    by (cases "kw_role kw")
       (auto simp: typed_patch_def stats_ok_def role_of_arg_def is_member_def split: pyval.splits)
  from n a r ok show ?thesis
    by (simp add: patched_def stats_ok_def json_fields_def)
qed

lemma patched_valid:
  assumes ok: "valid_profile p" and typed: "typed_patch kw" and age_ok: "\<not> age_refused kw"
  shows "valid_profile (patched kw p)"
proof -
  have a: "isinstance_int (case kw_age kw of Some a \<Rightarrow> a | None \<Rightarrow> age p)
      \<and> 0 \<le> int_of (case kw_age kw of Some a \<Rightarrow> a | None \<Rightarrow> age p)
      \<and> int_of (case kw_age kw of Some a \<Rightarrow> a | None \<Rightarrow> age p) \<le> 150"
    using ok age_ok by (cases "kw_age kw") (auto simp: age_refused_def valid_profile_def)
  have r: "is_member (case kw_role kw of Some v \<Rightarrow> role_of_arg v | None \<Rightarrow> role p)"
    using ok typed
    by (cases "kw_role kw")
       (auto simp: typed_patch_def valid_profile_def stats_ok_def role_of_arg_def is_member_def
          split: pyval.splits)
  from a r ok show ?thesis
    by (simp add: patched_def valid_profile_def stats_ok_def)
qed

lemma update_profile_saved:
  assumes p: "ProfileStorage_get_profile st uid = Some p"
    and s: "savable st" and typed: "typed_patch kw"
    and a: "\<not> age_refused kw" and r: "\<not> role_refused kw"
  shows "ProfileStorage_update_profile st uid kw =
      (Inr (Some (patched kw p)),
       st\<lparr>profiles := dict_set uid (patched kw p) (profiles st),
          storage_file := file_of (dict_set uid (patched kw p) (profiles st))\<rparr>)"
    and "update_profile st uid kw =
      (APIResponse_success (profile_record (patched kw p)) 200,
       st\<lparr>profiles := dict_set uid (patched kw p) (profiles st),
          storage_file := file_of (dict_set uid (patched kw p) (profiles st))\<rparr>)"
proof -
  from savable_stored [OF s p] have "stats_ok p" "json_fields p" by simp_all
  from patched_encodable [OF this typed a]
  have enc: "stats_ok (patched kw p)" "json_fields (patched kw p)" by simp_all
  from savable_dict_set [OF s enc]
  have "savable (st\<lparr>profiles := dict_set uid (patched kw p) (profiles st)\<rparr>)" .
  from save_all_ok [OF this]
  show result: "ProfileStorage_update_profile st uid kw =
      (Inr (Some (patched kw p)),
       st\<lparr>profiles := dict_set uid (patched kw p) (profiles st),
          storage_file := file_of (dict_set uid (patched kw p) (profiles st))\<rparr>)"
    by (simp add: update_profile_accepted [OF p a r])
  show "update_profile st uid kw =
      (APIResponse_success (profile_record (patched kw p)) 200,
       st\<lparr>profiles := dict_set uid (patched kw p) (profiles st),
          storage_file := file_of (dict_set uid (patched kw p) (profiles st))\<rparr>)"
    by (simp add: update_profile_def result serialize_ok [OF enc(1)])
qed

text \<open>
  C6, as the claim states it, fails. \<^verbatim>\<open>update_profile("student_001", role=None)\<close>:
  the constructor does not refuse the role \<^verbatim>\<open>None\<close> and neither does the update, which
  assigns it; \<^verbatim>\<open>save_all\<close> then raises \<^verbatim>\<open>AttributeError\<close> before it opens the
  file, the view answers 500, the stored profile has the role \<^verbatim>\<open>None\<close> and the file
  still holds the old records. Likewise, in a storage built from a file whose record
  has no \<^verbatim>\<open>role\<close> entry, \<^verbatim>\<open>update_profile("u1", name="Ann B.")\<close> is answered with
  500, the name is changed in the storage and the file is not written.
\<close>

theorem update_profile_none_role_counterexample:
  "ProfileStorage_get_profile two_profiles ''student_001'' = Some (alice\<lparr>activity_history := []\<rparr>)
   \<and> \<not> isl (UserProfile_init example_now (PStr ''student_001'') (PStr ''Alice Johnson'') (PInt 16) PNone)
   \<and> fst (ProfileStorage_update_profile two_profiles ''student_001'' none_role_patch)
       = Inl AttributeError
   \<and> fst (update_profile two_profiles ''student_001'' none_role_patch) = APIResponse_error 500
   \<and> ProfileStorage_get_profile
        (snd (update_profile two_profiles ''student_001'' none_role_patch)) ''student_001''
       = Some (alice\<lparr>activity_history := [], role := PNone\<rparr>)
   \<and> storage_file (snd (update_profile two_profiles ''student_001'' none_role_patch))
       = storage_file two_profiles
   \<and> storage_file two_profiles = file_of (profiles two_profiles)
   \<and> ProfileStorage_init example_now role_less_file = Inr (role_less_storage, [])
   \<and> fst (update_profile role_less_storage ''u1'' name_patch) = APIResponse_error 500
   \<and> map_option name
        (ProfileStorage_get_profile (snd (update_profile role_less_storage ''u1'' name_patch)) ''u1'')
       = Some (PStr ''Ann B.'')
   \<and> storage_file (snd (update_profile role_less_storage ''u1'' name_patch)) = role_less_file"
  by code_simp

text \<open>
  C6, amended. \<^verbatim>\<open>update_profile\<close> on an unknown user id returns \<^verbatim>\<open>None\<close>, the view
  answers 404, and nothing changes. On a known id it raises \<^verbatim>\<open>ValueError\<close> exactly
  when the constructor refuses the supplied age or the supplied role, and the view then
  answers 400 and the file is not written. Otherwise, in a storage whose profiles can be
  saved and for a supplied name that can be written and a supplied role that is a text
  or a member of the enumeration, the stored profile becomes the old one with the
  supplied name, age and role put in, the file is rewritten and holds the records of all
  profiles, the updated one among them, and the view answers 200 with the record of the
  updated profile; when the storage is moreover a storage state, a storage constructed
  from that file is the storage after the call. In every case the user id, the creation time, the activity history and each
  field that was not supplied stay as they were, and so do the other profiles and the
  order of the keys.
\<close>

theorem update_profile_frame:
  "(ProfileStorage_get_profile st uid = None \<longrightarrow>
      ProfileStorage_update_profile st uid kw = (Inr None, st)
    \<and> update_profile st uid kw = (APIResponse_error 404, st))
   \<and> (\<forall>p. ProfileStorage_get_profile st uid = Some p \<longrightarrow>
        ((\<exists>v. fst (ProfileStorage_update_profile st uid kw) = Inl (ValueError v)) \<longleftrightarrow>
           (\<exists>a. kw_age kw = Some a
               \<and> isl (UserProfile_init now (user_id p) (name p) a (PEnum STUDENT)))
         \<or> (\<exists>rl. kw_role kw = Some rl
               \<and> isl (UserProfile_init now (user_id p) (name p) (PInt 0) rl)))
      \<and> ((\<exists>v. fst (ProfileStorage_update_profile st uid kw) = Inl (ValueError v)) \<longrightarrow>
           fst (update_profile st uid kw) = APIResponse_error 400
         \<and> storage_file (snd (update_profile st uid kw)) = storage_file st)
      \<and> (savable st \<and> typed_patch kw
           \<and> \<not> (\<exists>v. fst (ProfileStorage_update_profile st uid kw) = Inl (ValueError v)) \<longrightarrow>
           ProfileStorage_update_profile st uid kw =
             (Inr (Some (patched kw p)),
              st\<lparr>profiles := dict_set uid (patched kw p) (profiles st),
                 storage_file := file_of (dict_set uid (patched kw p) (profiles st))\<rparr>)
         \<and> update_profile st uid kw =
             (APIResponse_success (profile_record (patched kw p)) 200,
              st\<lparr>profiles := dict_set uid (patched kw p) (profiles st),
                 storage_file := file_of (dict_set uid (patched kw p) (profiles st))\<rparr>)
         \<and> storage_file (snd (update_profile st uid kw))
             = Content (PDict (map (\<lambda>item. (fst item, profile_record (snd item)))
                                  (profiles (snd (update_profile st uid kw)))))
         \<and> (storage_ok st \<longrightarrow>
              ProfileStorage_init now (storage_file (snd (update_profile st uid kw)))
                = Inr (snd (update_profile st uid kw), [])))
      \<and> (\<exists>p'. ProfileStorage_get_profile (snd (update_profile st uid kw)) uid = Some p'
            \<and> user_id p' = user_id p \<and> created_at p' = created_at p
            \<and> activity_history p' = activity_history p
            \<and> (kw_name kw = None \<longrightarrow> name p' = name p)
            \<and> (kw_age kw = None \<longrightarrow> age p' = age p)
            \<and> (kw_role kw = None \<longrightarrow> role p' = role p))
      \<and> (\<forall>u. u \<noteq> uid \<longrightarrow>
            ProfileStorage_get_profile (snd (update_profile st uid kw)) u
              = ProfileStorage_get_profile st u)
      \<and> map fst (profiles (snd (update_profile st uid kw))) = map fst (profiles st))"
proof (intro conjI allI impI)
  assume "ProfileStorage_get_profile st uid = None"
  then show "ProfileStorage_update_profile st uid kw = (Inr None, st)"
    and "update_profile st uid kw = (APIResponse_error 404, st)"
    by (simp_all add: update_profile_unknown update_profile_def)
next
  fix p assume p: "ProfileStorage_get_profile st uid = Some p"
  note refused = update_profile_value_error [OF p, of kw]
  show "(\<exists>v. fst (ProfileStorage_update_profile st uid kw) = Inl (ValueError v)) \<longleftrightarrow>
           (\<exists>a. kw_age kw = Some a
               \<and> isl (UserProfile_init now (user_id p) (name p) a (PEnum STUDENT)))
         \<or> (\<exists>rl. kw_role kw = Some rl
               \<and> isl (UserProfile_init now (user_id p) (name p) (PInt 0) rl))"
    using refused age_refused_as_init [of kw now "user_id p" "name p"]
      role_refused_as_init [of kw now "user_id p" "name p"]
    by simp
  {
    assume "\<exists>v. fst (ProfileStorage_update_profile st uid kw) = Inl (ValueError v)"
    with refused have r: "age_refused kw \<or> role_refused kw" by simp
    then show "fst (update_profile st uid kw) = APIResponse_error 400"
      using update_profile_age_refused [OF p, of kw] update_profile_role_refused [OF p, of kw]
      by (cases "age_refused kw") (auto simp: update_profile_def except_400_500_def)
    from r show "storage_file (snd (update_profile st uid kw)) = storage_file st"
      using update_profile_age_refused [OF p, of kw] update_profile_role_refused [OF p, of kw]
      by (cases "age_refused kw") (auto simp: update_profile_view_state)
  }
  {
    assume h: "savable st \<and> typed_patch kw
           \<and> \<not> (\<exists>v. fst (ProfileStorage_update_profile st uid kw) = Inl (ValueError v))"
    with refused have a: "\<not> age_refused kw" and r: "\<not> role_refused kw" by simp_all
    from h have s: "savable st" and typed: "typed_patch kw" by simp_all
    note saved = update_profile_saved [OF p s typed a r]
    from saved
    show "ProfileStorage_update_profile st uid kw =
             (Inr (Some (patched kw p)),
              st\<lparr>profiles := dict_set uid (patched kw p) (profiles st),
                 storage_file := file_of (dict_set uid (patched kw p) (profiles st))\<rparr>)"
      and "update_profile st uid kw =
             (APIResponse_success (profile_record (patched kw p)) 200,
              st\<lparr>profiles := dict_set uid (patched kw p) (profiles st),
                 storage_file := file_of (dict_set uid (patched kw p) (profiles st))\<rparr>)"
      by simp_all
    show "storage_file (snd (update_profile st uid kw))
             = Content (PDict (map (\<lambda>item. (fst item, profile_record (snd item)))
                                  (profiles (snd (update_profile st uid kw)))))"
      by (simp add: saved(2) file_of_def)
    {
      assume ok: "storage_ok st"
      from storage_ok_stored [OF ok p] have "valid_profile p" "json_fields p" by simp_all
      from patched_valid [OF this(1) typed a]
        patched_encodable [OF valid_profile_def [THEN iffD1, OF this(1), THEN conjunct1] this(2) typed a]
      have "valid_profile (patched kw p)" "json_fields (patched kw p)" by simp_all
      from storage_ok_dict_set [OF ok this]
      have "storage_ok (st\<lparr>profiles := dict_set uid (patched kw p) (profiles st)\<rparr>)" .
      from init_file_of [OF this, of now]
      show "ProfileStorage_init now (storage_file (snd (update_profile st uid kw)))
                = Inr (snd (update_profile st uid kw), [])"
        by (simp add: saved(2))
    }
  }
  from update_profile_stored [OF p, of kw] obtain p' where
    st': "profiles (snd (ProfileStorage_update_profile st uid kw)) = dict_set uid p' (profiles st)"
    and frame: "user_id p' = user_id p \<and> created_at p' = created_at p
      \<and> activity_history p' = activity_history p
      \<and> (kw_name kw = None \<longrightarrow> name p' = name p)
      \<and> (kw_age kw = None \<longrightarrow> age p' = age p)
      \<and> (kw_role kw = None \<longrightarrow> role p' = role p)"
    by auto
  have "ProfileStorage_get_profile (snd (update_profile st uid kw)) uid = Some p'"
    by (simp add: ProfileStorage_get_profile_def update_profile_view_state st' map_of_dict_set)
  with frame show "\<exists>p'. ProfileStorage_get_profile (snd (update_profile st uid kw)) uid = Some p'
            \<and> user_id p' = user_id p \<and> created_at p' = created_at p
            \<and> activity_history p' = activity_history p
            \<and> (kw_name kw = None \<longrightarrow> name p' = name p)
            \<and> (kw_age kw = None \<longrightarrow> age p' = age p)
            \<and> (kw_role kw = None \<longrightarrow> role p' = role p)"
    by (intro exI [of _ p']) simp
  show "map fst (profiles (snd (update_profile st uid kw))) = map fst (profiles st)"
    using p by (simp add: update_profile_view_state st' ProfileStorage_get_profile_def
        map_fst_dict_set)
  fix u assume "u \<noteq> uid"
  then show "ProfileStorage_get_profile (snd (update_profile st uid kw)) u
      = ProfileStorage_get_profile st u"
    by (simp add: ProfileStorage_get_profile_def update_profile_view_state st' map_of_dict_set)
qed

lemma with_activities_nobody:
  "ProfileStorage_get_profile with_activities ''nobody'' = None"
  by code_simp

lemma profiles_with_activities:
  "profiles with_activities = [(''student_001'', alice), (''teacher_001'', paul)]"
  by code_simp

lemma typed_example_patch: "typed_patch example_patch"
  by code_simp

theorem update_profile_frame_witness:
  "ProfileStorage_get_profile with_activities ''student_001'' = Some alice
   \<and> ProfileStorage_get_profile with_activities ''nobody'' = None
   \<and> storage_ok with_activities \<and> savable with_activities \<and> typed_patch example_patch
   \<and> update_profile with_activities ''nobody'' example_patch
       = (APIResponse_error 404, with_activities)
   \<and> fst (update_profile with_activities ''student_001'' example_patch)
       = APIResponse_success
           (profile_record (alice\<lparr>name := PStr ''Alice J.'', age := PInt 17\<rparr>)) 200
   \<and> storage_file (snd (update_profile with_activities ''student_001'' example_patch))
       = file_of [(''student_001'', alice\<lparr>name := PStr ''Alice J.'', age := PInt 17\<rparr>),
                  (''teacher_001'', paul)]
   \<and> ProfileStorage_init example_now
        (storage_file (snd (update_profile with_activities ''student_001'' example_patch)))
       = Inr (snd (update_profile with_activities ''student_001'' example_patch), [])
   \<and> fst (update_profile with_activities ''student_001'' bad_patch) = APIResponse_error 400"
proof -
  note t = update_profile_frame
    [of with_activities "''student_001''" example_patch example_now,
      THEN conjunct2, rule_format, OF with_activities_alice]
  note u = update_profile_frame
    [of with_activities "''nobody''" example_patch example_now,
      THEN conjunct1, rule_format, OF with_activities_nobody]
  note b = update_profile_frame
    [of with_activities "''student_001''" bad_patch example_now,
      THEN conjunct2, rule_format, OF with_activities_alice]
  note ok = storage_ok_with_activities
  note s = storage_ok_savable [OF ok]
  from u have unknown: "update_profile with_activities ''nobody'' example_patch
       = (APIResponse_error 404, with_activities)"
    by (rule conjunct2)
  have accepted: "\<not> ((\<exists>a. kw_age example_patch = Some a
        \<and> isl (UserProfile_init example_now (user_id alice) (name alice) a (PEnum STUDENT)))
      \<or> (\<exists>rl. kw_role example_patch = Some rl
        \<and> isl (UserProfile_init example_now (user_id alice) (name alice) (PInt 0) rl)))"
    by (simp add: example_patch_def UserProfile_init_def isinstance_int_def int_of_def)
  have refused: "(\<exists>a. kw_age bad_patch = Some a
        \<and> isl (UserProfile_init example_now (user_id alice) (name alice) a (PEnum STUDENT)))
      \<or> (\<exists>rl. kw_role bad_patch = Some rl
        \<and> isl (UserProfile_init example_now (user_id alice) (name alice) (PInt 0) rl))"
    by (simp add: bad_patch_def UserProfile_init_def isinstance_int_def int_of_def)
  from accepted t [THEN conjunct1]
  have no_error: "\<not> (\<exists>v. fst (ProfileStorage_update_profile with_activities ''student_001''
      example_patch) = Inl (ValueError v))"
    by simp
  from refused b [THEN conjunct1]
  have error: "\<exists>v. fst (ProfileStorage_update_profile with_activities ''student_001''
      bad_patch) = Inl (ValueError v)"
    by simp
  note upd = t [THEN conjunct2, THEN conjunct2, THEN conjunct1, rule_format,
      OF conjI [OF s conjI [OF typed_example_patch no_error]]]
  have p: "patched example_patch alice = alice\<lparr>name := PStr ''Alice J.'', age := PInt 17\<rparr>"
    by (simp add: patched_def example_patch_def alice_def)
  from upd [THEN conjunct2, THEN conjunct1]
  have view: "update_profile with_activities ''student_001'' example_patch =
      (APIResponse_success (profile_record (alice\<lparr>name := PStr ''Alice J.'', age := PInt 17\<rparr>)) 200,
       with_activities\<lparr>profiles := dict_set ''student_001''
            (alice\<lparr>name := PStr ''Alice J.'', age := PInt 17\<rparr>) (profiles with_activities),
          storage_file := file_of (dict_set ''student_001''
            (alice\<lparr>name := PStr ''Alice J.'', age := PInt 17\<rparr>) (profiles with_activities))\<rparr>)"
    by (simp only: p)
  have updated: "fst (update_profile with_activities ''student_001'' example_patch)
       = APIResponse_success
           (profile_record (alice\<lparr>name := PStr ''Alice J.'', age := PInt 17\<rparr>)) 200"
    by (simp add: view)
  have written: "storage_file (snd (update_profile with_activities ''student_001'' example_patch))
       = file_of [(''student_001'', alice\<lparr>name := PStr ''Alice J.'', age := PInt 17\<rparr>),
                  (''teacher_001'', paul)]"
    by (simp add: view profiles_with_activities)
  from upd [THEN conjunct2, THEN conjunct2, THEN conjunct2, rule_format, OF ok]
  have load: "ProfileStorage_init example_now
        (storage_file (snd (update_profile with_activities ''student_001'' example_patch)))
       = Inr (snd (update_profile with_activities ''student_001'' example_patch), [])" .
  from b [THEN conjunct2, THEN conjunct1, rule_format, OF error]
  have rejected: "fst (update_profile with_activities ''student_001'' bad_patch) = APIResponse_error 400"
    by (rule conjunct1)
  from with_activities_alice with_activities_nobody ok s typed_example_patch
    unknown updated written load rejected
  show ?thesis by (intro conjI)
qed

subsection \<open>Adding an activity\<close>

lemma get_profile_save_all:
  "ProfileStorage_get_profile (snd (save_all st)) u = ProfileStorage_get_profile st u"
  by (simp add: ProfileStorage_get_profile_def profiles_save_all)

lemma add_activity_to_profile_unknown:
  "ProfileStorage_get_profile st uid = None \<Longrightarrow>
     add_activity_to_profile now st uid ty dur cal nt = (Inr False, st)"
  by (simp add: add_activity_to_profile_def)

lemma add_activity_to_profile_known:
  "ProfileStorage_get_profile st uid = Some p \<Longrightarrow>
     add_activity_to_profile now st uid ty dur cal nt =
       (case save_all (st\<lparr>profiles := dict_set uid
          (p\<lparr>activity_history := activity_history p @
               [\<lparr>activity_type = ty, duration_minutes = dur, calories_burned = cal,
                 timestamp = now, notes = nt\<rparr>]\<rparr>) (profiles st)\<rparr>) of
          (Some e, st') \<Rightarrow> (Inl e, st')
        | (None, st') \<Rightarrow> (Inr True, st'))"
  by (simp add: add_activity_to_profile_def UserProfile_add_activity_def ActivityEntry_init_def Let_def)







subsection \<open>Listing profiles\<close>

lemma entry_has_role_list_record:
  "entry_has_role r (list_record p) \<longleftrightarrow> role_text (role p) = r"
  by (auto simp: entry_has_role_def list_record_def)

lemma filter_list_record:
  "filter (entry_has_role r) (map list_record ps)
     = map list_record (filter (\<lambda>p. role_text (role p) = r) ps)"
  by (induction ps) (simp_all add: entry_has_role_list_record)

lemma filter_by_role_ok:
  "list_all stats_ok ps \<Longrightarrow>
     filter_by_role r ps = Inr (filter (\<lambda>p. role_text (role p) = r) ps)"
  by (induction ps) (simp_all add: dot_value_ok)

lemma serialize_list_view_ok:
  "list_all stats_ok ps \<Longrightarrow> serialize_list_view ps = Inr (PList (map list_record ps))"
  using list_comp_total [of ps list_view_entry list_record]
  by (simp add: serialize_list_view_def list_all_iff list_view_entry_ok)

text \<open>
  C8, as the claim states it, fails: the empty text is not a recognized role, and
  \<^verbatim>\<open>list_profiles(role="")\<close> answers 200 with every profile, because \<^verbatim>\<open>if role:\<close>
  takes the empty string for no filter.
\<close>

theorem list_profiles_empty_role_counterexample:
  "[] \<notin> set [''student'', ''gym_teacher'']
   \<and> status_code (list_profiles two_profiles (Some [])) = 200
   \<and> list_profiles two_profiles (Some []) = list_profiles two_profiles None"
  by code_simp

text \<open>
  C8, amended. In a storage whose profiles have a role of the enumeration and integer
  durations and calories, the view answers a recognized role with 200 and the list-view
  records of exactly the profiles of that role, which are the entries of the unfiltered
  answer that carry this role, in the same order; the answer is a 200 also when the list
  is empty. In every storage a role text that is not empty and not recognized is
  answered with 400, and the empty text is answered like no role at all.
\<close>

theorem list_profiles_filter:
  "(list_all (\<lambda>item. stats_ok (snd item)) (profiles st) \<longrightarrow>
      (r = ''student'' \<or> r = ''gym_teacher'' \<longrightarrow>
         get_profiles_by_role st r
           = Inr (filter (\<lambda>p. role_text (role p) = r) (get_all_profiles st))
       \<and> list_profiles st (Some r) =
           APIResponse_success
             (PList (map list_record
                (filter (\<lambda>p. role_text (role p) = r) (get_all_profiles st)))) 200
       \<and> status_code (list_profiles st (Some r)) = 200 \<and> success (list_profiles st (Some r))
       \<and> (\<exists>entries. data (list_profiles st None) = Some (PList entries)
             \<and> data (list_profiles st (Some r)) = Some (PList (filter (entry_has_role r) entries))))
    \<and> list_profiles st None
        = APIResponse_success (PList (map list_record (get_all_profiles st))) 200)
   \<and> (r \<noteq> [] \<and> r \<noteq> ''student'' \<and> r \<noteq> ''gym_teacher'' \<longrightarrow>
        list_profiles st (Some r) = APIResponse_error 400)
   \<and> list_profiles st (Some []) = list_profiles st None"
proof (intro conjI impI)
  assume ok: "list_all (\<lambda>item. stats_ok (snd item)) (profiles st)"
  then have all_ok: "list_all stats_ok (get_all_profiles st)"
    by (simp add: get_all_profiles_def list_all_iff)
  then have some_ok: "list_all stats_ok (filter (\<lambda>p. role_text (role p) = r) (get_all_profiles st))"
    by (simp add: list_all_iff)
  show unfiltered: "list_profiles st None
      = APIResponse_success (PList (map list_record (get_all_profiles st))) 200"
    by (simp add: list_profiles_def serialize_list_view_ok [OF all_ok])
  assume r: "r = ''student'' \<or> r = ''gym_teacher''"
  then have nonempty: "r \<noteq> []" by auto
  show by_role: "get_profiles_by_role st r
      = Inr (filter (\<lambda>p. role_text (role p) = r) (get_all_profiles st))"
    using filter_by_role_ok [OF all_ok, of r]
    by (simp add: get_profiles_by_role_def get_all_profiles_def)
  show filtered: "list_profiles st (Some r) =
         APIResponse_success
           (PList (map list_record
              (filter (\<lambda>p. role_text (role p) = r) (get_all_profiles st)))) 200"
    using r nonempty by (auto simp: list_profiles_def by_role serialize_list_view_ok [OF some_ok])
  show "status_code (list_profiles st (Some r)) = 200" "success (list_profiles st (Some r))"
    by (simp_all add: filtered APIResponse_success_def)
  have "data (list_profiles st None) = Some (PList (map list_record (get_all_profiles st)))"
    by (simp add: unfiltered APIResponse_success_def)
  moreover have "data (list_profiles st (Some r)) =
      Some (PList (filter (entry_has_role r) (map list_record (get_all_profiles st))))"
    by (simp add: filtered APIResponse_success_def filter_list_record)
  ultimately show "\<exists>entries. data (list_profiles st None) = Some (PList entries)
           \<and> data (list_profiles st (Some r)) = Some (PList (filter (entry_has_role r) entries))"
    by simp
next
  assume "r \<noteq> [] \<and> r \<noteq> ''student'' \<and> r \<noteq> ''gym_teacher''"
  then show "list_profiles st (Some r) = APIResponse_error 400"
    by (simp add: list_profiles_def)
next
  show "list_profiles st (Some []) = list_profiles st None"
    by (simp add: list_profiles_def)
qed

lemma listable_two_profiles: "list_all (\<lambda>item. stats_ok (snd item)) (profiles two_profiles)"
  by code_simp

lemma listable_empty_storage: "list_all (\<lambda>item. stats_ok (snd item)) (profiles empty_storage)"
  by code_simp

theorem list_profiles_filter_witness:
  "list_all (\<lambda>item. stats_ok (snd item)) (profiles two_profiles)
   \<and> data (list_profiles two_profiles (Some ''student'')) =
     Some (PList [list_record (alice\<lparr>activity_history := []\<rparr>)])
   \<and> data (list_profiles two_profiles None) =
     Some (PList [list_record (alice\<lparr>activity_history := []\<rparr>), list_record paul])
   \<and> list_profiles empty_storage (Some ''gym_teacher'') = APIResponse_success (PList []) 200
   \<and> list_profiles two_profiles (Some ''teacher'') = APIResponse_error 400"
proof -
  have all: "get_all_profiles two_profiles = [alice\<lparr>activity_history := []\<rparr>, paul]"
    by code_simp
  have roles: "role_text (role (alice\<lparr>activity_history := []\<rparr>)) = ''student''"
    "role_text (role paul) = ''gym_teacher''"
    by (simp_all add: alice_def paul_def role_text_def)
  have none: "get_all_profiles empty_storage = []"
    by (simp add: get_all_profiles_def empty_storage_def)
  note two = list_profiles_filter [of two_profiles "''student''", THEN conjunct1, rule_format,
      OF listable_two_profiles]
  note empty = list_profiles_filter [of empty_storage "''gym_teacher''", THEN conjunct1, rule_format,
      OF listable_empty_storage]
  have a: "data (list_profiles two_profiles (Some ''student'')) =
     Some (PList [list_record (alice\<lparr>activity_history := []\<rparr>)])"
    using two [THEN conjunct1, rule_format, THEN conjunct2, THEN conjunct1] all roles
    by (simp add: APIResponse_success_def)
  have b: "data (list_profiles two_profiles None) =
     Some (PList [list_record (alice\<lparr>activity_history := []\<rparr>), list_record paul])"
    using two [THEN conjunct2] all
    by (simp add: APIResponse_success_def)
  have c: "list_profiles empty_storage (Some ''gym_teacher'') = APIResponse_success (PList []) 200"
    using empty [THEN conjunct1, rule_format, THEN conjunct2, THEN conjunct1] none
    by simp
  have d: "list_profiles two_profiles (Some ''teacher'') = APIResponse_error 400"
    using list_profiles_filter [of two_profiles "''teacher''"] by simp
  from listable_two_profiles a b c d show ?thesis by (intro conjI)
qed

subsection \<open>Loading the backing file\<close>

text \<open>
  What \<^verbatim>\<open>load_all\<close> tolerates: no file, a file that is not JSON, and a record whose
  decoding raises \<^verbatim>\<open>ValueError\<close>. In the last two cases the exception is printed and
  the dictionary is empty.
\<close>

lemma load_all_absent:
  "ProfileStorage_init now Absent = Inr (\<lparr>profiles = [], storage_file = Absent\<rparr>, [])"
  by (simp add: ProfileStorage_init_def load_all_def)

lemma load_all_unparseable:
  "ProfileStorage_init now Unparseable =
     Inr (\<lparr>profiles = [], storage_file = Unparseable\<rparr>, [ValueError JSONDecodeError])"
  by (simp add: ProfileStorage_init_def load_all_def)

lemma load_all_value_error:
  "load_items now items [] = Inl (ValueError v) \<Longrightarrow>
     ProfileStorage_init now (Content (PDict items)) =
       Inr (\<lparr>profiles = [], storage_file = Content (PDict items)\<rparr>, [ValueError v])"
  by (simp add: ProfileStorage_init_def load_all_def)

text \<open>
  C9 fails on the code. A backing file that is valid JSON but not an object of profile
  records makes the constructor raise: \<^verbatim>\<open>[]\<close> and \<^verbatim>\<open>{"u1": 5}\<close> raise
  \<^verbatim>\<open>AttributeError\<close>, and a record whose \<^verbatim>\<open>created_at\<close> is the number 5 raises
  \<^verbatim>\<open>TypeError\<close>; the handler of \<^verbatim>\<open>load_all\<close> catches neither.
\<close>

theorem load_all_raises_on_wrong_shape:
  "ProfileStorage_init example_now (Content (PList [])) = Inl AttributeError
   \<and> ProfileStorage_init example_now (Content (PDict [(''u1'', PInt 5)])) = Inl AttributeError
   \<and> ProfileStorage_init example_now
        (Content (PDict [(''u1'', PDict [(''user_id'', PStr ''u1''), (''name'', PStr ''Ann''),
                                         (''age'', PInt 20), (''role'', PStr ''student''),
                                         (''created_at'', PInt 5)])]))
       = Inl TypeError"
  by code_simp

subsection \<open>A refused update\<close>

text \<open>
  C10 fails on the code. \<^verbatim>\<open>update_profile("student_001", name="Bob", age=200)\<close> is
  answered with 400, and afterwards the stored profile has the name \<^verbatim>\<open>Bob\<close> (its age
  is still 16): the name was assigned before the age was checked. The file is not
  rewritten, so it still holds the old name.
\<close>

theorem update_profile_partial_on_error:
  "fst (update_profile with_activities ''student_001'' bad_patch) = APIResponse_error 400
   \<and> map_option name (ProfileStorage_get_profile with_activities ''student_001'')
       = Some (PStr ''Alice Johnson'')
   \<and> map_option name
        (ProfileStorage_get_profile
           (snd (update_profile with_activities ''student_001'' bad_patch)) ''student_001'')
       = Some (PStr ''Bob'')
   \<and> map_option age
        (ProfileStorage_get_profile
           (snd (update_profile with_activities ''student_001'' bad_patch)) ''student_001'')
       = Some (PInt 16)
   \<and> storage_file (snd (update_profile with_activities ''student_001'' bad_patch))
       = storage_file with_activities"
  by code_simp

subsection \<open>Reachable storage states\<close>

text \<open>
  The views keep the storage a storage state: a storage that starts from no file or from
  a file that is not JSON is one, a storage constructed from the file of a storage state
  is one, and each view takes one to one, also when it answers with an error
  (\<^verbatim>\<open>update_profile\<close> when the supplied name can be written and the supplied role is a
  text or a member of the enumeration).
\<close>

lemma storage_ok_save_all: "storage_ok (snd (save_all st)) = storage_ok st"
  by (simp add: storage_ok_def profiles_save_all)

lemma storage_ok_no_file:
  "ProfileStorage_init now Absent = Inr (st, printed) \<or>
   ProfileStorage_init now Unparseable = Inr (st, printed) \<Longrightarrow> storage_ok st"
  by (auto simp: load_all_absent load_all_unparseable storage_ok_def)

lemma storage_ok_own_file:
  "storage_ok st \<Longrightarrow> ProfileStorage_init now (file_of (profiles st)) = Inr (st', printed) \<Longrightarrow>
     storage_ok st'"
  by (simp add: init_file_of) (auto simp: storage_ok_def)

lemma init_valid:
  assumes now: "valid_datetime now" and age_ok: "isinstance_int ag" "0 \<le> int_of ag" "int_of ag \<le> 150"
    and rl: "rl = PStr ''student'' \<or> rl = PStr ''gym_teacher''"
  shows "\<exists>p. UserProfile_init now (PStr uid) (PStr nm) ag rl = Inr p
      \<and> valid_profile p \<and> json_fields p"
  using assms
  by (auto simp: UserProfile_init_def UserRole_call_def valid_profile_def stats_ok_def
      is_member_def json_fields_def json_ok_int)

lemma storage_ok_create_profile:
  assumes now: "valid_datetime now" and ok: "storage_ok st"
  shows "storage_ok (snd (create_profile now st uid nm ag rl))"
proof (cases "uid = [] \<or> nm = [] \<or> \<not> isinstance_int ag \<or> int_of ag < 0 \<or> int_of ag > 150
    \<or> rl \<notin> set [PStr ''student'', PStr ''gym_teacher''] \<or> py_in uid (profiles st)")
  case True
  then have "snd (create_profile now st uid nm ag rl) = st"
    by (auto simp: create_profile_def ProfileStorage_create_profile_def)
  with ok show ?thesis by simp
next
  case False
  then have "isinstance_int ag" "0 \<le> int_of ag" "int_of ag \<le> 150"
    "rl = PStr ''student'' \<or> rl = PStr ''gym_teacher''"
    by auto
  from init_valid [OF now this, of uid nm] obtain p where
    p: "UserProfile_init now (PStr uid) (PStr nm) ag rl = Inr p"
    and v: "valid_profile p" "json_fields p"
    by auto
  let ?st = "st\<lparr>profiles := dict_set uid p (profiles st)\<rparr>"
  have "snd (create_profile now st uid nm ag rl) = snd (save_all ?st)"
    using False p
    by (cases "save_all ?st")
       (auto simp: create_profile_def ProfileStorage_create_profile_def
          split: option.splits sum.splits)
  with storage_ok_dict_set [OF ok v, of uid] show ?thesis
    by (simp add: storage_ok_save_all)
qed

lemma storage_ok_update_profile:
  assumes ok: "storage_ok st" and typed: "typed_patch kw"
  shows "storage_ok (snd (update_profile st uid kw))"
proof (cases "ProfileStorage_get_profile st uid")
  case None
  with ok show ?thesis by (simp add: update_profile_view_state update_profile_unknown)
next
  case (Some p)
  from storage_ok_stored [OF ok Some] have v: "valid_profile p" and j: "json_fields p"
    by simp_all
  have n: "json_ok (case kw_name kw of Some n \<Rightarrow> n | None \<Rightarrow> name p)"
    using j typed by (cases "kw_name kw") (simp_all add: typed_patch_def json_fields_def)
  show ?thesis
  proof (cases "age_refused kw")
    case True
    from v j n
    have "valid_profile (p\<lparr>name := (case kw_name kw of Some n \<Rightarrow> n | None \<Rightarrow> name p)\<rparr>)"
      "json_fields (p\<lparr>name := (case kw_name kw of Some n \<Rightarrow> n | None \<Rightarrow> name p)\<rparr>)"
      by (simp_all add: valid_profile_def stats_ok_def json_fields_def)
    from storage_ok_dict_set [OF ok this] show ?thesis
      by (simp add: update_profile_view_state update_profile_age_refused [OF Some True])
  next
    case age_ok: False
    have no_role: "patched (kw\<lparr>kw_role := None\<rparr>) p =
        p\<lparr>name := (case kw_name kw of Some n \<Rightarrow> n | None \<Rightarrow> name p),
          age := (case kw_age kw of Some a \<Rightarrow> a | None \<Rightarrow> age p)\<rparr>"
      by (simp add: patched_def)
    have typed': "typed_patch (kw\<lparr>kw_role := None\<rparr>)"
      using typed by (simp add: typed_patch_def)
    have age_ok': "\<not> age_refused (kw\<lparr>kw_role := None\<rparr>)"
      using age_ok by (simp add: age_refused_def)
    show ?thesis
    proof (cases "role_refused kw")
      case True
      from patched_valid [OF v typed' age_ok']
        patched_encodable [OF valid_profile_def [THEN iffD1, OF v, THEN conjunct1] j typed' age_ok']
      have "valid_profile (patched (kw\<lparr>kw_role := None\<rparr>) p)"
        "json_fields (patched (kw\<lparr>kw_role := None\<rparr>) p)"
        by simp_all
      from storage_ok_dict_set [OF ok this, of uid] show ?thesis
        by (simp add: update_profile_view_state update_profile_role_refused [OF Some age_ok True]
            no_role)
    next
      case False
      from patched_valid [OF v typed age_ok]
        patched_encodable [OF valid_profile_def [THEN iffD1, OF v, THEN conjunct1] j typed age_ok]
      have "valid_profile (patched kw p)" "json_fields (patched kw p)" by simp_all
      from storage_ok_dict_set [OF ok this, of uid]
      have "storage_ok (st\<lparr>profiles := dict_set uid (patched kw p) (profiles st)\<rparr>)" .
      moreover have "snd (ProfileStorage_update_profile st uid kw)
          = snd (save_all (st\<lparr>profiles := dict_set uid (patched kw p) (profiles st)\<rparr>))"
        by (cases "save_all (st\<lparr>profiles := dict_set uid (patched kw p) (profiles st)\<rparr>)")
           (auto simp: update_profile_accepted [OF Some age_ok False] split: option.splits)
      ultimately show ?thesis
        by (simp add: update_profile_view_state storage_ok_save_all)
    qed
  qed
qed

lemma storage_ok_delete_profile:
  "storage_ok st \<Longrightarrow> storage_ok (snd (delete_profile st uid))"
proof -
  assume ok: "storage_ok st"
  let ?st = "st\<lparr>profiles := dict_del uid (profiles st)\<rparr>"
  have del: "storage_ok ?st"
    using ok by (auto simp: storage_ok_def dict_del_def distinct_map_filter list_all_iff)
  have "snd (delete_profile st uid) = st \<or> snd (delete_profile st uid) = snd (save_all ?st)"
    by (cases "save_all ?st")
       (auto simp: delete_profile_def ProfileStorage_delete_profile_def split: option.splits)
  with ok del show ?thesis by (auto simp: storage_ok_save_all)
qed

lemma storage_ok_add_activity:
  assumes now: "valid_datetime now" and ok: "storage_ok st"
  shows "storage_ok (snd (add_activity now st uid ty dur cal nt))"
proof (cases "ty = [] \<or> \<not> isinstance_int dur \<or> int_of dur \<le> 0 \<or> \<not> isinstance_int cal
    \<or> int_of cal < 0 \<or> ProfileStorage_get_profile st uid = None")
  case True
  then have "snd (add_activity now st uid ty dur cal nt) = st"
    by (auto simp: add_activity_def add_activity_to_profile_unknown)
  with ok show ?thesis by simp
next
  case False
  then obtain p where p: "ProfileStorage_get_profile st uid = Some p" by auto
  from False have dur: "isinstance_int dur" and cal: "isinstance_int cal" by simp_all
  let ?p' = "p\<lparr>activity_history := activity_history p @
               [\<lparr>activity_type = PStr ty, duration_minutes = dur, calories_burned = cal,
                 timestamp = now, notes = PStr nt\<rparr>]\<rparr>"
  let ?st = "st\<lparr>profiles := dict_set uid ?p' (profiles st)\<rparr>"
  from storage_ok_stored [OF ok p] have v: "valid_profile p" and j: "json_fields p" by simp_all
  from v now dur cal have v': "valid_profile ?p'"
    by (simp add: valid_profile_def stats_ok_def)
  from j dur cal have j': "json_fields ?p'"
    by (simp add: json_fields_def json_ok_int)
  have "snd (add_activity now st uid ty dur cal nt) = snd (save_all ?st)"
    using False
    by (cases "save_all ?st")
       (auto simp: add_activity_def add_activity_to_profile_known [OF p]
          split: option.splits sum.splits)
  with storage_ok_dict_set [OF ok v' j', of uid] show ?thesis
    by (simp add: storage_ok_save_all)
qed

lemma saved_state:
  assumes ok: "storage_ok st"
  shows "storage_ok (snd (save_all st)) \<and> file_ok (snd (save_all st))"
proof -
  from save_all_ok [OF storage_ok_savable [OF ok]]
  have s: "save_all st = (None, st\<lparr>storage_file := file_of (profiles st)\<rparr>)" .
  from ok have "storage_ok \<lparr>profiles = profiles st, storage_file = file_of (profiles st)\<rparr>"
    by (simp add: storage_ok_def)
  with ok show ?thesis
    by (auto simp: s file_ok_def storage_ok_def)
qed

lemma file_ok_memory:
  "file_ok st \<Longrightarrow> file_ok (st\<lparr>profiles := profs\<rparr>)"
  by (auto simp: file_ok_def storage_ok_def)

lemma reachable_create_profile:
  assumes now: "valid_datetime now" and ok: "storage_ok st" and f: "file_ok st"
  shows "file_ok (snd (create_profile now st uid nm ag rl))"
proof (cases "uid = [] \<or> nm = [] \<or> \<not> isinstance_int ag \<or> int_of ag < 0 \<or> int_of ag > 150
    \<or> rl \<notin> set [PStr ''student'', PStr ''gym_teacher''] \<or> py_in uid (profiles st)")
  case True
  then have "snd (create_profile now st uid nm ag rl) = st"
    by (auto simp: create_profile_def ProfileStorage_create_profile_def)
  with f show ?thesis by simp
next
  case False
  then have "isinstance_int ag" "0 \<le> int_of ag" "int_of ag \<le> 150"
    "rl = PStr ''student'' \<or> rl = PStr ''gym_teacher''"
    by auto
  from init_valid [OF now this, of uid nm] obtain p where
    p: "UserProfile_init now (PStr uid) (PStr nm) ag rl = Inr p"
    and v: "valid_profile p" "json_fields p"
    by auto
  let ?st = "st\<lparr>profiles := dict_set uid p (profiles st)\<rparr>"
  have "snd (create_profile now st uid nm ag rl) = snd (save_all ?st)"
    using False p
    by (cases "save_all ?st")
       (auto simp: create_profile_def ProfileStorage_create_profile_def
          split: option.splits sum.splits)
  with saved_state [OF storage_ok_dict_set [OF ok v, of uid]] show ?thesis
    by simp
qed

lemma reachable_update_profile:
  assumes ok: "storage_ok st" and f: "file_ok st" and typed: "typed_patch kw"
  shows "file_ok (snd (update_profile st uid kw))"
proof (cases "ProfileStorage_get_profile st uid")
  case None
  with f show ?thesis by (simp add: update_profile_view_state update_profile_unknown)
next
  case (Some p)
  from storage_ok_stored [OF ok Some] have v: "valid_profile p" and j: "json_fields p"
    by simp_all
  show ?thesis
  proof (cases "age_refused kw")
    case True
    from file_ok_memory [OF f] show ?thesis
      by (simp add: update_profile_view_state update_profile_age_refused [OF Some True])
  next
    case age_ok: False
    show ?thesis
    proof (cases "role_refused kw")
      case True
      from file_ok_memory [OF f] show ?thesis
        by (simp add: update_profile_view_state update_profile_role_refused [OF Some age_ok True])
    next
      case False
      from patched_valid [OF v typed age_ok]
        patched_encodable [OF valid_profile_def [THEN iffD1, OF v, THEN conjunct1] j typed age_ok]
      have "valid_profile (patched kw p)" "json_fields (patched kw p)" by simp_all
      from storage_ok_dict_set [OF ok this, of uid]
      have "storage_ok (st\<lparr>profiles := dict_set uid (patched kw p) (profiles st)\<rparr>)" .
      moreover have "snd (ProfileStorage_update_profile st uid kw)
          = snd (save_all (st\<lparr>profiles := dict_set uid (patched kw p) (profiles st)\<rparr>))"
        by (cases "save_all (st\<lparr>profiles := dict_set uid (patched kw p) (profiles st)\<rparr>)")
           (auto simp: update_profile_accepted [OF Some age_ok False] split: option.splits)
      ultimately show ?thesis
        using saved_state by (simp add: update_profile_view_state)
    qed
  qed
qed

lemma reachable_delete_profile:
  assumes ok: "storage_ok st" and f: "file_ok st"
  shows "file_ok (snd (delete_profile st uid))"
proof -
  let ?st = "st\<lparr>profiles := dict_del uid (profiles st)\<rparr>"
  have del: "storage_ok ?st"
    using ok by (auto simp: storage_ok_def dict_del_def distinct_map_filter list_all_iff)
  have "snd (delete_profile st uid) = st \<or> snd (delete_profile st uid) = snd (save_all ?st)"
    by (cases "save_all ?st")
       (auto simp: delete_profile_def ProfileStorage_delete_profile_def split: option.splits)
  with f saved_state [OF del] show ?thesis by auto
qed

lemma reachable_add_activity:
  assumes now: "valid_datetime now" and ok: "storage_ok st" and f: "file_ok st"
  shows "file_ok (snd (add_activity now st uid ty dur cal nt))"
proof (cases "ty = [] \<or> \<not> isinstance_int dur \<or> int_of dur \<le> 0 \<or> \<not> isinstance_int cal
    \<or> int_of cal < 0 \<or> ProfileStorage_get_profile st uid = None")
  case True
  then have "snd (add_activity now st uid ty dur cal nt) = st"
    by (auto simp: add_activity_def add_activity_to_profile_unknown)
  with f show ?thesis by simp
next
  case False
  then obtain p where p: "ProfileStorage_get_profile st uid = Some p" by auto
  from False have dur: "isinstance_int dur" and cal: "isinstance_int cal" by simp_all
  let ?p' = "p\<lparr>activity_history := activity_history p @
               [\<lparr>activity_type = PStr ty, duration_minutes = dur, calories_burned = cal,
                 timestamp = now, notes = PStr nt\<rparr>]\<rparr>"
  let ?st = "st\<lparr>profiles := dict_set uid ?p' (profiles st)\<rparr>"
  from storage_ok_stored [OF ok p] have v: "valid_profile p" and j: "json_fields p" by simp_all
  from v now dur cal have v': "valid_profile ?p'"
    by (simp add: valid_profile_def stats_ok_def)
  from j dur cal have j': "json_fields ?p'"
    by (simp add: json_fields_def json_ok_int)
  have "snd (add_activity now st uid ty dur cal nt) = snd (save_all ?st)"
    using False
    by (cases "save_all ?st")
       (auto simp: add_activity_def add_activity_to_profile_known [OF p]
          split: option.splits sum.splits)
  with saved_state [OF storage_ok_dict_set [OF ok v' j', of uid]] show ?thesis
    by simp
qed

lemma reachable_restart:
  assumes f: "file_ok st" and init: "ProfileStorage_init now (storage_file st) = Inr (st', printed)"
  shows "storage_ok st' \<and> file_ok st'"
proof -
  from f consider "storage_file st = Absent" | "storage_file st = Unparseable"
    | profs where "storage_file st = file_of profs"
        "storage_ok \<lparr>profiles = profs, storage_file = storage_file st\<rparr>"
    by (auto simp: file_ok_def)
  then show ?thesis
  proof cases
    case 1
    with init show ?thesis
      by (auto simp: load_all_absent storage_ok_def file_ok_def)
  next
    case 2
    with init show ?thesis
      by (auto simp: load_all_unparseable storage_ok_def file_ok_def)
  next
    case 3
    from init_file_of [OF 3(2), of now] 3(1) init
    have "st' = \<lparr>profiles = profs, storage_file = file_of profs\<rparr>" by simp
    with 3 show ?thesis by (auto simp: file_ok_def storage_ok_def)
  qed
qed

text \<open>
  Every reached storage state is a storage state, and its file is absent, not JSON, or
  the file of a storage state.
\<close>

theorem reachable_storage_ok: "reachable st \<Longrightarrow> storage_ok st \<and> file_ok st"
proof (induction rule: reachable.induct)
  case (start f now st printed)
  then show ?case
    by (auto simp: load_all_absent load_all_unparseable storage_ok_def file_ok_def)
next
  case (restart st now st' printed)
  then show ?case using reachable_restart by blast
next
  case (create st now uid nm ag rl)
  then show ?case
    using storage_ok_create_profile reachable_create_profile by blast
next
  case (update st kw uid)
  then show ?case
    using storage_ok_update_profile reachable_update_profile by blast
next
  case (delete st uid)
  then show ?case
    using storage_ok_delete_profile reachable_delete_profile by blast
next
  case (add st now uid ty dur cal nt)
  then show ?case
    using storage_ok_add_activity reachable_add_activity by blast
qed

end
